theory Spec2Isabelle
  imports Complex_Main
begin

section \<open>Data model of the image node parser workflow\<close>

text \<open>
  The embedding follows \<^verbatim>\<open>src/src/image_node_parser_workflow.py\<close>. Python exceptions are
  values of \<open>py_error\<close>; a call that may raise returns \<open>py_error + 'a\<close> with \<open>Inl\<close> the
  exception. Objects that the code mutates in place (the segmentation configuration, the
  root image node) are passed through the functions and returned in their new state.

  The calls into the models and the imaging library may raise, each as the environment
  \<open>env\<close> says. The constructors of nodes and events, \<^verbatim>\<open>as_related_node_info\<close>,
  \<^verbatim>\<open>source_node\<close> and \<^verbatim>\<open>send_event\<close> are taken not to raise.
\<close>

datatype py_error =
    KeyError string
  | TypeError
  | AttributeError
  | ValidationError
  | ProviderError string

text \<open>\<^verbatim>\<open>class ImageRegion\<close>, with the field types the constructor annotates.\<close>

datatype image_region =
  ImageRegion (x1: int) (y1: int) (x2: int) (y2: int) (label: string) (score: real)

type_synonym pil_image = "nat list"
type_synonym box = "int \<times> int \<times> int \<times> int"

text \<open>
  A base64 image payload: the picture \<open>enc_picture\<close> saved in the image format
  \<open>enc_format\<close> and base64-encoded. The bytes themselves are not modelled.
\<close>

datatype b64_image = Base64 (enc_format: string) (enc_picture: pil_image)

datatype related_node_info = RelatedNodeInfo (ref_node_id: nat)

text \<open>
  The \<^verbatim>\<open>relationships\<close> dict of a node, keyed by \<^verbatim>\<open>NodeRelationship\<close>; \<open>None\<close> is an
  absent key. SOURCE and PARENT hold one reference, CHILD a list of references.
\<close>

record relationships =
  SOURCE :: "related_node_info option"
  PARENT :: "related_node_info option"
  CHILD :: "related_node_info list option"

type_synonym metadata_dict = "(string \<times> (string \<times> int) list) list"

text \<open>\<^verbatim>\<open>TextNode\<close>, and \<^verbatim>\<open>ImageNode\<close> (a subclass of it; \<^verbatim>\<open>ImageDocument\<close> is an ImageNode).\<close>

record text_node =
  node_id :: nat
  node_text :: string
  mimetype :: string
  metadata :: metadata_dict
  relationships :: relationships

record image_node = text_node +
  image :: "b64_image option"
  image_mimetype :: "string option"

text \<open>
  Values stored in the segmentation configuration dict, and the Python values a
  configuration variable holds: \<^verbatim>\<open>None\<close>, a dict with string keys, or a tuple of
  dicts, each of them written as its items in insertion order.
\<close>

datatype conf_val =
    VStr string
  | VRegions "image_region list"
  | VSettings "(string \<times> string) list"

datatype py_config =
    PyNone
  | PyDict "string \<Rightarrow> conf_val option"
  | PyTuple "(string \<times> conf_val) list list"

text \<open>\<^verbatim>\<open>key in c\<close>. No element of a tuple of dicts equals a string.\<close>

fun py_contains :: "py_config \<Rightarrow> string \<Rightarrow> py_error + bool" where
  "py_contains PyNone k = Inl TypeError"
| "py_contains (PyDict d) k = Inr (k \<in> dom d)"
| "py_contains (PyTuple xs) k = Inr False"

text \<open>\<^verbatim>\<open>c[key] = v\<close>: the dict is updated in place; a tuple or None raises TypeError.\<close>

fun py_setitem :: "py_config \<Rightarrow> string \<Rightarrow> conf_val \<Rightarrow> py_error + py_config" where
  "py_setitem (PyDict d) k v = Inr (PyDict (d(k \<mapsto> v)))"
| "py_setitem PyNone k v = Inl TypeError"
| "py_setitem (PyTuple xs) k v = Inl TypeError"

text \<open>\<^verbatim>\<open>c[key]\<close>.\<close>

fun py_getitem :: "py_config \<Rightarrow> string \<Rightarrow> py_error + conf_val" where
  "py_getitem (PyDict d) k = (case d k of None \<Rightarrow> Inl (KeyError k) | Some v \<Rightarrow> Inr v)"
| "py_getitem PyNone k = Inl TypeError"
| "py_getitem (PyTuple xs) k = Inl TypeError"

text \<open>\<^verbatim>\<open>c.get(key, default)\<close>: only a dict has the method.\<close>

fun py_get :: "py_config \<Rightarrow> string \<Rightarrow> conf_val \<Rightarrow> py_error + conf_val" where
  "py_get (PyDict d) k dflt = Inr (case d k of None \<Rightarrow> dflt | Some v \<Rightarrow> v)"
| "py_get PyNone k dflt = Inl AttributeError"
| "py_get (PyTuple xs) k dflt = Inl AttributeError"

text \<open>The payload of \<^verbatim>\<open>StopEvent(result=...)\<close>; \<open>descriptions = None\<close> is an absent key.\<close>

record result_dict =
  source :: image_node
  chunks :: "image_node list"
  descriptions :: "text_node option list option"

text \<open>
  The events of the workflow. The event classes of the source only declare fields; how
  an event is built is decided by the workflow library the code runs with, whose event
  base class is a validating model. What the model takes from it:
  \<^item> a declared field that the constructor call does not pass is \<open>None\<close> (the source
    builds its events that way in lines 115, 118 and 159);
  \<^item> a field declared \<^verbatim>\<open>dict | None\<close> keeps a dict, the very object that was passed, and
    keeps None; any other value \<open>v\<close> is replaced by \<^verbatim>\<open>dict(v)\<close>, and the call raises when
    that fails (\<open>validate_dict_field\<close> below);
  \<^item> \<^verbatim>\<open>StopEvent\<close> has the one field \<^verbatim>\<open>result\<close>, and its constructor takes no other
    keyword (\<open>stop_event_with_reason\<close> below).
\<close>

datatype event =
    ImageLoadedEvent image_node py_config "(string \<Rightarrow> real option) option"
  | BBoxCreatedEvent image_node py_config "(string \<Rightarrow> real option) option"
  | ImageParsedEvent image_node "image_node list"
  | StopEvent "result_dict option"

text \<open>The keys of a dict written as its items, in insertion order.\<close>

fun py_keys :: "(string \<times> conf_val) list \<Rightarrow> string list" where
  "py_keys [] = []"
| "py_keys (kv # kvs) = fst kv # filter (\<lambda>k. k \<noteq> fst kv) (py_keys kvs)"

text \<open>
  \<^verbatim>\<open>dict(t)\<close> for a tuple \<open>t\<close> of dicts, added to the entries \<open>d\<close> made so far: each
  element of the tuple must yield exactly two items when iterated; a dict yields its
  keys, so its first key becomes a key of the new dict and its second key the value.
  \<open>None\<close> when an element has another number of keys, where Python raises.
\<close>

fun dict_of_sequence ::
  "(string \<times> conf_val) list list \<Rightarrow> (string \<Rightarrow> conf_val option) \<Rightarrow> (string \<Rightarrow> conf_val option) option" where
  "dict_of_sequence [] d = Some d"
| "dict_of_sequence (kvs # rest) d =
     (case py_keys kvs of
        [k, v] \<Rightarrow> dict_of_sequence rest (d(k \<mapsto> VStr v))
      | _ \<Rightarrow> None)"

fun validate_dict_field :: "py_config \<Rightarrow> py_error + py_config" where
  "validate_dict_field PyNone = Inr PyNone"
| "validate_dict_field (PyDict d) = Inr (PyDict d)"
| "validate_dict_field (PyTuple t) =
     (case dict_of_sequence t Map.empty of
        None \<Rightarrow> Inl ValidationError
      | Some d \<Rightarrow> Inr (PyDict d))"

text \<open>
  Two constructor calls of the source: \<^verbatim>\<open>BBoxCreatedEvent(image=.., segmentation_configuration=..)\<close>
  and \<^verbatim>\<open>StopEvent(reason=..)\<close>. The second raises TypeError for its unexpected keyword.
\<close>

definition bbox_created_event :: "image_node \<Rightarrow> py_config \<Rightarrow> py_error + event" where
  "bbox_created_event img conf =
     (case validate_dict_field conf of
        Inl e \<Rightarrow> Inl e
      | Inr conf' \<Rightarrow> Inr (BBoxCreatedEvent img conf' None))"

definition stop_event_with_reason :: "string \<Rightarrow> py_error + event" where
  "stop_event_with_reason reason = Inl TypeError"

text \<open>What \<^verbatim>\<open>send_event\<close> is given during stage 3.\<close>

datatype sent_event =
    ImageChunkGenerated image_node
  | WorkflowRuntimeError py_error

text \<open>
  The keyword arguments of a run, as attributes of the \<^verbatim>\<open>StartEvent\<close>; \<open>None\<close> (\<open>PyNone\<close>)
  is an attribute that is missing or None (for \<open>start_mimetype\<close>: missing).
  \<open>NotAnImageNode\<close> is an \<^verbatim>\<open>image\<close> argument that is not an instance of ImageNode.
  \<^verbatim>\<open>load_image\<close> never reads the attribute \<^verbatim>\<open>object_detection_configuration\<close>.
\<close>

datatype image_arg = AnImageNode image_node | NotAnImageNode

record start_event =
  start_image :: "image_arg option"
  start_base64_image :: "b64_image option"
  start_mimetype :: "string option"
  start_image_path :: "string option"
  start_segmentation_configuration :: py_config
  start_object_detection_configuration :: "(string \<Rightarrow> real option) option"

section \<open>External collaborators and mutable world\<close>

type_synonym llm_call = "string \<times> image_node list"

record sam2_predictor =
  set_image :: "pil_image \<Rightarrow> py_error option"
  predict :: "pil_image \<Rightarrow> box \<Rightarrow> py_error + pil_image"

text \<open>
  The collaborators the workflow calls; none of them is code of this repository's core.
  \<^item> \<open>multi_modal_llm\<close>: the attribute of that name, \<open>None\<close> when not configured; its
    \<^verbatim>\<open>complete\<close> may answer differently on every call, so it also sees the calls made so far;
  \<^item> \<open>detect_bboxes_with_owlv2\<close>: the method \<^verbatim>\<open>_detect_bboxes_with_owlv2\<close> (image, prompt,
    confidence, NMS threshold), whose body only drives the OWLv2 processor and model and
    wraps their boxes as regions; it is taken as a whole;
  \<^item> \<open>open_rgb\<close>: \<^verbatim>\<open>Image.open(node.resolve_image()).convert("RGB")\<close>;
  \<^item> \<open>open_path\<close>: \<^verbatim>\<open>Image.open(path).convert("RGB")\<close>;
  \<^item> \<open>sam2_from_pretrained\<close>: \<^verbatim>\<open>SAM2ImagePredictor.from_pretrained(name, device="cpu", **kw)\<close>;
  \<^item> \<open>mask_image\<close>: \<^verbatim>\<open>Image.fromarray(ann[0][-1].astype(np.uint8))\<close>;
  \<^item> \<open>composite_crop\<close>: \<^verbatim>\<open>Image.composite(img, Image.new("RGB", img.size), mask).crop(box)\<close>;
  \<^item> \<open>pil_save\<close>: \<^verbatim>\<open>pil_image.save(buffered, format=format)\<close>, \<open>Some e\<close> when it raises.
\<close>

record env =
  multi_modal_llm :: "(llm_call list \<Rightarrow> string \<Rightarrow> image_node list \<Rightarrow> py_error + string) option"
  detect_bboxes_with_owlv2 :: "image_node \<Rightarrow> conf_val \<Rightarrow> real \<Rightarrow> real \<Rightarrow> py_error + image_region list"
  open_rgb :: "image_node \<Rightarrow> py_error + pil_image"
  open_path :: "string \<Rightarrow> py_error + pil_image"
  sam2_from_pretrained :: "conf_val \<Rightarrow> (string \<times> string) list \<Rightarrow> py_error + sam2_predictor"
  mask_image :: "pil_image \<Rightarrow> py_error + pil_image"
  composite_crop :: "pil_image \<Rightarrow> pil_image \<Rightarrow> box \<Rightarrow> py_error + pil_image"
  pil_save :: "pil_image \<Rightarrow> string \<Rightarrow> py_error option"

text \<open>
  What a run changes outside its own values: the supply of fresh node ids (the next new
  node gets \<open>next_id\<close>), the calls made to the multi-modal LLM, and the events sent.
\<close>

record world =
  next_id :: nat
  llm_calls :: "llm_call list"
  sent :: "sent_event list"

section \<open>Class attributes and helpers\<close>

text \<open>
  \<^verbatim>\<open>_default_predictor_configuration = {...},\<close>: the assignment ends in a comma, so the
  attribute is a one-element tuple holding the dict.
\<close>

definition default_predictor_items :: "(string \<times> conf_val) list" where
  "default_predictor_items =
     [(''model_name'', VStr ''facebook/sam2-hiera-small''), (''sam_settings'', VSettings [])]"

definition default_predictor_configuration :: py_config where
  "default_predictor_configuration = PyTuple [default_predictor_items]"

definition object_detection_configuration :: "string \<Rightarrow> real option" where
  "object_detection_configuration =
     Map.empty(''confidence'' \<mapsto> 1 / 10, ''nms_threshold'' \<mapsto> 3 / 10)"

definition as_related_node_info :: "'a text_node_scheme \<Rightarrow> related_node_info" where
  "as_related_node_info n = RelatedNodeInfo (node_id n)"

text \<open>The \<^verbatim>\<open>source_node\<close> property: the SOURCE entry of the relationships, if any.\<close>

definition source_node :: "'a text_node_scheme \<Rightarrow> related_node_info option" where
  "source_node n = SOURCE (relationships n)"

definition ref_doc_id :: "'a text_node_scheme \<Rightarrow> related_node_info" where
  "ref_doc_id n =
     (case source_node n of
        None \<Rightarrow> as_related_node_info n
      | Some src \<Rightarrow> src)"

definition image_to_base64 :: "env \<Rightarrow> pil_image \<Rightarrow> string \<Rightarrow> py_error + b64_image" where
  "image_to_base64 env pil_img fmt =
     (case pil_save env pil_img fmt of
        Some e \<Rightarrow> Inl e
      | None \<Rightarrow> Inr (Base64 fmt pil_img))"

definition no_relationships :: relationships where
  "no_relationships = \<lparr>SOURCE = None, PARENT = None, CHILD = None\<rparr>"

text \<open>\<^verbatim>\<open>ImageDocument(image=b, mimetype=m, image_mimetype=m)\<close> with a fresh id.\<close>

definition ImageDocument :: "nat \<Rightarrow> b64_image option \<Rightarrow> string \<Rightarrow> image_node" where
  "ImageDocument i b m =
     \<lparr>node_id = i, node_text = [], mimetype = m, metadata = [],
      relationships = no_relationships, image = b, image_mimetype = Some m\<rparr>"

section \<open>Stage 1: load_image\<close>

text \<open>
  \<^verbatim>\<open>return ImageLoadedEvent(image=.., segmentation_configuration=.., ..)\<close>. The second
  component is the segmentation configuration object that the event holds (the one in
  use, when the event cannot be built).
\<close>

definition return_image_loaded_event ::
  "image_node \<Rightarrow> py_config \<Rightarrow> (string \<Rightarrow> real option) option \<Rightarrow> world
     \<Rightarrow> (py_error + event) \<times> py_config \<times> world" where
  "return_image_loaded_event img conf odc w =
     (case validate_dict_field conf of
        Inl e \<Rightarrow> (Inl e, conf, w)
      | Inr conf' \<Rightarrow> (Inr (ImageLoadedEvent img conf' odc), conf', w))"

definition load_image :: "env \<Rightarrow> start_event \<Rightarrow> world \<Rightarrow> (py_error + event) \<times> py_config \<times> world" where
  "load_image env start w =
     (let sam_configuration =
            (if start_segmentation_configuration start \<noteq> PyNone
             then start_segmentation_configuration start
             else default_predictor_configuration)
      in case start_image start of
           Some (AnImageNode n) \<Rightarrow> return_image_loaded_event n sam_configuration None w
         | _ \<Rightarrow>
           (case start_base64_image start of
              Some b \<Rightarrow>
                (case start_mimetype start of
                   None \<Rightarrow> (Inl AttributeError, sam_configuration, w)
                 | Some m \<Rightarrow>
                     return_image_loaded_event (ImageDocument (next_id w) (Some b) m)
                       sam_configuration None (w\<lparr>next_id := Suc (next_id w)\<rparr>))
            | None \<Rightarrow>
              (case start_image_path start of
                 Some path \<Rightarrow>
                   (case open_path env path of
                      Inl e \<Rightarrow> (Inl e, sam_configuration, w)
                    | Inr img \<Rightarrow>
                      (case image_to_base64 env img ''JPEG'' of
                         Inl e \<Rightarrow> (Inl e, sam_configuration, w)
                       | Inr b \<Rightarrow>
                           return_image_loaded_event
                             (ImageDocument (next_id w) (Some b) ''image/jpg'')
                             sam_configuration (Some object_detection_configuration)
                             (w\<lparr>next_id := Suc (next_id w)\<rparr>)))
               | None \<Rightarrow> (Inr (StopEvent None), sam_configuration, w))))"

section \<open>Stage 2: create_bboxes\<close>

definition elicitation_prompt :: string where
  "elicitation_prompt = ''Find the most important entities in the image and produce a list of short prompts to use for an object detection model. Put each single prompt on a new line. Emit only the prompts.''"

text \<open>\<^verbatim>\<open>d.get(key, default)\<close> on the detection configuration, which may be None.\<close>

definition odc_get :: "(string \<Rightarrow> real option) option \<Rightarrow> string \<Rightarrow> real \<Rightarrow> py_error + real" where
  "odc_get odc k dflt =
     (case odc of
        None \<Rightarrow> Inl AttributeError
      | Some d \<Rightarrow> Inr (case d k of None \<Rightarrow> dflt | Some v \<Rightarrow> v))"

text \<open>
  Lines 136 to 142: when the configuration has no prompt, ask the LLM for one and store
  its text in the configuration. Returns the configuration and the world as the lines
  leave them, also when they raise.
\<close>

definition elicit_prompt :: "env \<Rightarrow> image_node \<Rightarrow> py_config \<Rightarrow> world \<Rightarrow> (py_error + unit) \<times> py_config \<times> world" where
  "elicit_prompt env img conf w =
     (case py_contains conf ''prompt'' of
        Inl e \<Rightarrow> (Inl e, conf, w)
      | Inr True \<Rightarrow> (Inr (), conf, w)
      | Inr False \<Rightarrow>
        (case multi_modal_llm env of
           None \<Rightarrow> (Inl AttributeError, conf, w)
         | Some llm \<Rightarrow>
           (let w' = w\<lparr>llm_calls := llm_calls w @ [(elicitation_prompt, [img])]\<rparr>
            in case llm (llm_calls w) elicitation_prompt [img] of
                 Inl e \<Rightarrow> (Inl e, conf, w')
               | Inr txt \<Rightarrow>
                 (case py_setitem conf ''prompt'' (VStr txt) of
                    Inl e \<Rightarrow> (Inl e, conf, w')
                  | Inr conf' \<Rightarrow> (Inr (), conf', w')))))"

text \<open>
  The body of the \<^verbatim>\<open>try\<close> block of \<^verbatim>\<open>create_bboxes\<close>. Its value is the local variable
  \<^verbatim>\<open>bbox_list\<close> (\<open>None\<close> when the detection is skipped).
\<close>

definition create_bboxes_try ::
  "env \<Rightarrow> image_node \<Rightarrow> py_config \<Rightarrow> (string \<Rightarrow> real option) option \<Rightarrow> world
     \<Rightarrow> (py_error + image_region list option) \<times> py_config \<times> world" where
  "create_bboxes_try env img conf odc w =
     (case py_contains conf ''bbox_list'' of
        Inl e \<Rightarrow> (Inl e, conf, w)
      | Inr True \<Rightarrow> (Inr None, conf, w)
      | Inr False \<Rightarrow>
        (case elicit_prompt env img conf w of
           (Inl e, conf', w') \<Rightarrow> (Inl e, conf', w')
         | (Inr u, conf', w') \<Rightarrow>
           (case py_getitem conf' ''prompt'' of
              Inl e \<Rightarrow> (Inl e, conf', w')
            | Inr p \<Rightarrow>
              (case odc_get odc ''confidence'' (1 / 10) of
                 Inl e \<Rightarrow> (Inl e, conf', w')
               | Inr confidence \<Rightarrow>
                 (case odc_get odc ''nms_threshold'' (3 / 10) of
                    Inl e \<Rightarrow> (Inl e, conf', w')
                  | Inr nms_threshold \<Rightarrow>
                    (case detect_bboxes_with_owlv2 env img p confidence nms_threshold of
                       Inl e \<Rightarrow> (Inl e, conf', w')
                     | Inr bbox_list \<Rightarrow> (Inr (Some bbox_list), conf', w')))))))"

text \<open>
  \<^verbatim>\<open>create_bboxes\<close>: on an exception of the try block the handler logs it and returns
  \<^verbatim>\<open>StopEvent(reason=...)\<close>, a call that itself raises, inside the handler, so that the
  step ends with that TypeError. Otherwise the BBoxCreatedEvent is built, after the
  \<^verbatim>\<open>try\<close>, from the image and the segmentation configuration of the incoming event. The
  local \<^verbatim>\<open>bbox_list\<close> is not used after the try block.
\<close>

definition bbox_failure_reason :: string where
  "bbox_failure_reason = ''Bounding box creation failed due to an error.''"

definition create_bboxes ::
  "env \<Rightarrow> image_node \<Rightarrow> py_config \<Rightarrow> (string \<Rightarrow> real option) option \<Rightarrow> world
     \<Rightarrow> (py_error + event) \<times> py_config \<times> world" where
  "create_bboxes env img conf odc w =
     (case create_bboxes_try env img conf odc w of
        (Inl e, conf', w') \<Rightarrow> (stop_event_with_reason bbox_failure_reason, conf', w')
      | (Inr bbox_list, conf', w') \<Rightarrow> (bbox_created_event img conf', conf', w'))"

section \<open>Stage 3: parse_image and _parse_image_node_with_sam2\<close>

text \<open>
  The first loop of \<^verbatim>\<open>_parse_image_node_with_sam2\<close>: one prediction per box, appended to
  \<^verbatim>\<open>annotations\<close>. It is outside every \<^verbatim>\<open>try\<close>: the first exception ends the function.
\<close>

fun predict_boxes ::
  "sam2_predictor \<Rightarrow> pil_image \<Rightarrow> image_region list \<Rightarrow> pil_image list \<Rightarrow> py_error + pil_image list" where
  "predict_boxes predictor img [] annotations = Inr annotations"
| "predict_boxes predictor img (bbox # rest) annotations =
     (case predict predictor img (x1 bbox, y1 bbox, x2 bbox, y2 bbox) of
        Inl e \<Rightarrow> Inl e
      | Inr ann \<Rightarrow> predict_boxes predictor img rest (annotations @ [ann]))"

text \<open>\<^verbatim>\<open>ImageNode(image=b, mimetype=m, metadata=dict(region=dict(x1=.., y1=.., x2=.., y2=..)))\<close>
  with its SOURCE and PARENT relationships set as in lines 345 and 346.\<close>

definition region_metadata :: "image_region \<Rightarrow> metadata_dict" where
  "region_metadata bbox =
     [(''region'', [(''x1'', x1 bbox), (''y1'', y1 bbox), (''x2'', x2 bbox), (''y2'', y2 bbox)])]"

definition new_image_chunk :: "nat \<Rightarrow> b64_image \<Rightarrow> image_node \<Rightarrow> image_region \<Rightarrow> image_node" where
  "new_image_chunk i b image_node bbox =
     \<lparr>node_id = i, node_text = [], mimetype = mimetype image_node,
      metadata = region_metadata bbox,
      relationships = \<lparr>SOURCE = Some (ref_doc_id image_node),
                        PARENT = Some (as_related_node_info image_node),
                        CHILD = None\<rparr>,
      image = Some b, image_mimetype = None\<rparr>"

text \<open>Lines 325 to 328: the mask, the composite and the crop of one region.\<close>

definition mask_and_crop :: "env \<Rightarrow> pil_image \<Rightarrow> pil_image \<Rightarrow> image_region \<Rightarrow> py_error + pil_image" where
  "mask_and_crop env img ann bbox =
     (case mask_image env ann of
        Inl e \<Rightarrow> Inl e
      | Inr mask_img \<Rightarrow> composite_crop env img mask_img (x1 bbox, y1 bbox, x2 bbox, y2 bbox))"

text \<open>
  The second loop, over \<^verbatim>\<open>zip(annotations, configuration["bbox_list"])\<close>. The mask, the
  composite and the crop are computed before the \<^verbatim>\<open>try\<close>; the \<^verbatim>\<open>try\<close> holds the encoding,
  the construction of the chunk, the append and the ImageChunkGenerated event, and its
  handler sends a WorkflowRuntimeError and continues.
\<close>

fun crop_chunks ::
  "env \<Rightarrow> image_node \<Rightarrow> pil_image \<Rightarrow> (pil_image \<times> image_region) list \<Rightarrow> image_node list \<Rightarrow> world
     \<Rightarrow> (py_error + image_node list) \<times> world" where
  "crop_chunks env image_node img [] image_chunks w = (Inr image_chunks, w)"
| "crop_chunks env image_node img ((ann, bbox) # rest) image_chunks w =
     (case mask_and_crop env img ann bbox of
        Inl e \<Rightarrow> (Inl e, w)
      | Inr cropped_image \<Rightarrow>
        (case image_to_base64 env cropped_image ''JPEG'' of
           Inl e \<Rightarrow>
             crop_chunks env image_node img rest image_chunks
               (w\<lparr>sent := sent w @ [WorkflowRuntimeError e]\<rparr>)
         | Inr b \<Rightarrow>
             (let image_chunk = new_image_chunk (next_id w) b image_node bbox
              in crop_chunks env image_node img rest (image_chunks @ [image_chunk])
                   (w\<lparr>next_id := Suc (next_id w),
                      sent := sent w @ [ImageChunkGenerated image_chunk]\<rparr>))))"

text \<open>
  \<^verbatim>\<open>for bbox in configuration["bbox_list"]\<close>: a list of regions is iterated; a string or a
  dict is iterable too, but its elements have no attribute \<^verbatim>\<open>x1\<close>.
\<close>

fun iter_bbox_list :: "conf_val \<Rightarrow> py_error + image_region list" where
  "iter_bbox_list (VRegions rs) = Inr rs"
| "iter_bbox_list (VStr s) = (if s = [] then Inr [] else Inl AttributeError)"
| "iter_bbox_list (VSettings kw) = (if kw = [] then Inr [] else Inl AttributeError)"

text \<open>\<^verbatim>\<open>**sam_settings\<close>: only a mapping can be unpacked into keyword arguments.\<close>

fun unpack_kwargs :: "conf_val \<Rightarrow> py_error + (string \<times> string) list" where
  "unpack_kwargs (VSettings kw) = Inr kw"
| "unpack_kwargs (VStr s) = Inl TypeError"
| "unpack_kwargs (VRegions rs) = Inl TypeError"

text \<open>Lines 353 and 354: the CHILD relationship of the root after the loops.\<close>

definition register_children :: "image_node \<Rightarrow> image_node list \<Rightarrow> image_node" where
  "register_children image_node image_chunks =
     (let children_collection = (case CHILD (relationships image_node) of None \<Rightarrow> [] | Some cs \<Rightarrow> cs)
      in image_node\<lparr>relationships := (relationships image_node)
           \<lparr>CHILD := Some (children_collection @ map as_related_node_info (drop 1 image_chunks))\<rparr>\<rparr>)"

text \<open>
  \<^verbatim>\<open>_parse_image_node_with_sam2\<close>. Returns the chunks (or the exception that escapes), the
  root node as the call leaves it, and the world.
\<close>

definition parse_image_node_with_sam2 ::
  "env \<Rightarrow> image_node \<Rightarrow> py_config \<Rightarrow> world \<Rightarrow> (py_error + image_node list) \<times> image_node \<times> world" where
  "parse_image_node_with_sam2 env image_node configuration w =
     (case open_rgb env image_node of
        Inl e \<Rightarrow> (Inl e, image_node, w)
      | Inr img \<Rightarrow>
     (case py_get configuration ''sam_settings'' (VSettings []) of
        Inl e \<Rightarrow> (Inl e, image_node, w)
      | Inr sam_settings \<Rightarrow>
     (case py_getitem configuration ''model_name'' of
        Inl e \<Rightarrow> (Inl e, image_node, w)
      | Inr model_name \<Rightarrow>
     (case unpack_kwargs sam_settings of
        Inl e \<Rightarrow> (Inl e, image_node, w)
      | Inr kw \<Rightarrow>
     (case sam2_from_pretrained env model_name kw of
        Inl e \<Rightarrow> (Inl e, image_node, w)
      | Inr predictor \<Rightarrow>
     (case set_image predictor img of
        Some e \<Rightarrow> (Inl e, image_node, w)
      | None \<Rightarrow>
     (case py_getitem configuration ''bbox_list'' of
        Inl e \<Rightarrow> (Inl e, image_node, w)
      | Inr bl \<Rightarrow>
     (case iter_bbox_list bl of
        Inl e \<Rightarrow> (Inl e, image_node, w)
      | Inr bbox_list \<Rightarrow>
     (case predict_boxes predictor img bbox_list [] of
        Inl e \<Rightarrow> (Inl e, image_node, w)
      | Inr annotations \<Rightarrow>
     (case crop_chunks env image_node img (zip annotations bbox_list) [] w of
        (Inl e, w') \<Rightarrow> (Inl e, image_node, w')
      | (Inr image_chunks, w') \<Rightarrow>
          (Inr image_chunks, register_children image_node image_chunks, w')))))))))))"

text \<open>
  \<^verbatim>\<open>parse_image\<close>. The event's image is the object that \<^verbatim>\<open>_parse_image_node_with_sam2\<close>
  has just updated, so the result and the next event hold the updated root.
\<close>

definition parse_image :: "env \<Rightarrow> image_node \<Rightarrow> py_config \<Rightarrow> world \<Rightarrow> (py_error + event) \<times> world" where
  "parse_image env img conf w =
     (case parse_image_node_with_sam2 env img conf w of
        (Inl e, img', w') \<Rightarrow> (Inl e, w')
      | (Inr parsed, img', w') \<Rightarrow>
          (if length parsed = 0
           then (Inr (StopEvent (Some \<lparr>source = img', chunks = [], descriptions = None\<rparr>)), w')
           else (Inr (ImageParsedEvent img' parsed), w')))"

section \<open>Stage 4: describe_image\<close>

definition description_prompt :: string where
  "description_prompt = ''Describe the image above in a few words.''"

text \<open>
  One iteration of the loop of \<^verbatim>\<open>describe_image\<close>: the \<^verbatim>\<open>try\<close> block and its handler.
  The value is what the iteration appends to \<^verbatim>\<open>image_descriptions\<close>.
\<close>

definition describe_chunk ::
  "(llm_call list \<Rightarrow> string \<Rightarrow> image_node list \<Rightarrow> py_error + string) \<Rightarrow> image_node \<Rightarrow> image_node \<Rightarrow> world
     \<Rightarrow> text_node option \<times> world" where
  "describe_chunk llm src image_chunk w =
     (let doc = ImageDocument (next_id w) (image image_chunk) (mimetype image_chunk);
          w1 = w\<lparr>next_id := Suc (next_id w),
                 llm_calls := llm_calls w @ [(description_prompt, [doc])]\<rparr>
      in case llm (llm_calls w) description_prompt [doc] of
           Inl e \<Rightarrow> (None, w1)
         | Inr txt \<Rightarrow>
             (Some \<lparr>node_id = next_id w1, node_text = txt, mimetype = ''text/plain'', metadata = [],
                    relationships = \<lparr>SOURCE = Some (ref_doc_id src),
                                      PARENT = Some (as_related_node_info image_chunk),
                                      CHILD = None\<rparr>\<rparr>,
              w1\<lparr>next_id := Suc (next_id w1)\<rparr>))"

fun describe_chunks ::
  "(llm_call list \<Rightarrow> string \<Rightarrow> image_node list \<Rightarrow> py_error + string) \<Rightarrow> image_node \<Rightarrow> image_node list
     \<Rightarrow> text_node option list \<Rightarrow> world \<Rightarrow> text_node option list \<times> world" where
  "describe_chunks llm src [] image_descriptions w = (image_descriptions, w)"
| "describe_chunks llm src (image_chunk # rest) image_descriptions w =
     (case describe_chunk llm src image_chunk w of
        (d, w') \<Rightarrow> describe_chunks llm src rest (image_descriptions @ [d]) w')"

definition describe_image :: "env \<Rightarrow> image_node \<Rightarrow> image_node list \<Rightarrow> world \<Rightarrow> event \<times> world" where
  "describe_image env src cs w =
     (case (case multi_modal_llm env of
              None \<Rightarrow> ([], w)
            | Some llm \<Rightarrow> describe_chunks llm src cs [] w) of
        (image_descriptions, w') \<Rightarrow>
          (StopEvent (Some \<lparr>source = src, chunks = cs, descriptions = Some image_descriptions\<rparr>), w'))"

section \<open>The workflow run\<close>

text \<open>
  The workflow hands each event to the step that accepts its type, starting with the
  StartEvent and ending at the first StopEvent; an exception that a step does not catch
  ends the run. The value of a run is the StopEvent reached (or the exception), with
  the final state of the segmentation configuration object and of the world.
\<close>

definition dispatch_parsed :: "env \<Rightarrow> (py_error + event) \<times> world \<Rightarrow> (py_error + event) \<times> world" where
  "dispatch_parsed env r =
     (case r of
        (Inr (ImageParsedEvent src cs), w) \<Rightarrow>
          (case describe_image env src cs w of (ev, w') \<Rightarrow> (Inr ev, w'))
      | _ \<Rightarrow> r)"

definition dispatch_bboxes ::
  "env \<Rightarrow> (py_error + event) \<times> py_config \<times> world \<Rightarrow> (py_error + event) \<times> py_config \<times> world" where
  "dispatch_bboxes env r =
     (case r of
        (Inr (BBoxCreatedEvent img conf odc), conf', w) \<Rightarrow>
          (case dispatch_parsed env (parse_image env img conf w) of (res, w') \<Rightarrow> (res, conf', w'))
      | _ \<Rightarrow> r)"

definition run :: "env \<Rightarrow> start_event \<Rightarrow> world \<Rightarrow> (py_error + event) \<times> py_config \<times> world" where
  "run env start w =
     (case load_image env start w of
        (Inr (ImageLoadedEvent img conf odc), conf0, w1) \<Rightarrow>
          dispatch_bboxes env (create_bboxes env img conf odc w1)
      | r \<Rightarrow> r)"

section \<open>Notions used to state the properties\<close>

text \<open>The diagnostic events among the events sent, and the chunks announced by the others.\<close>

fun is_runtime_error :: "sent_event \<Rightarrow> bool" where
  "is_runtime_error (WorkflowRuntimeError e) = True"
| "is_runtime_error (ImageChunkGenerated c) = False"

fun generated_chunks :: "sent_event list \<Rightarrow> image_node list" where
  "generated_chunks [] = []"
| "generated_chunks (ImageChunkGenerated c # evs) = c # generated_chunks evs"
| "generated_chunks (WorkflowRuntimeError e # evs) = generated_chunks evs"

text \<open>
  A pair of the second loop of stage 3 whose encoding step succeeds: the crop exists and
  \<^verbatim>\<open>save\<close> does not raise on it.
\<close>

definition chunk_encodes :: "env \<Rightarrow> pil_image \<Rightarrow> pil_image \<times> image_region \<Rightarrow> bool" where
  "chunk_encodes env img z =
     (case mask_and_crop env img (fst z) (snd z) of
        Inl e \<Rightarrow> False
      | Inr cropped_image \<Rightarrow> pil_save env cropped_image ''JPEG'' = None)"

text \<open>
  The merge as the specification words it (section 4.1, stage 1): the caller's keys win,
  the keys the caller leaves out keep their default values. It is not taken from the
  code; \<open>load_image\<close> above is.
\<close>

definition spec_merged_configuration :: "(string \<Rightarrow> conf_val option) \<Rightarrow> (string \<Rightarrow> conf_val option)" where
  "spec_merged_configuration caller = map_of default_predictor_items ++ caller"

text \<open>The conditions under which \<^verbatim>\<open>load_image\<close> reaches its \<^verbatim>\<open>image_path\<close> branch.\<close>

definition takes_path_branch :: "start_event \<Rightarrow> bool" where
  "takes_path_branch start =
     ((case start_image start of Some (AnImageNode n) \<Rightarrow> False | _ \<Rightarrow> True) \<and>
      start_base64_image start = None \<and> start_image_path start \<noteq> None)"

section \<open>Example inputs and collaborators\<close>

definition region0 :: image_region where
  "region0 = ImageRegion 10 10 50 50 ''chair'' (9 / 10)"

definition region1 :: image_region where
  "region1 = ImageRegion 0 0 20 20 ''table'' (1 / 2)"

text \<open>A PNG root node that already has a source document and one child.\<close>

definition root_png :: image_node where
  "root_png =
     \<lparr>node_id = 0, node_text = [], mimetype = ''image/png'', metadata = [],
      relationships = \<lparr>SOURCE = Some (RelatedNodeInfo 7), PARENT = None,
                        CHILD = Some [RelatedNodeInfo 3]\<rparr>,
      image = Some (Base64 ''PNG'' [1, 2, 3]), image_mimetype = Some ''image/png''\<rparr>"

definition predictor_ok :: sam2_predictor where
  "predictor_ok = \<lparr>set_image = (\<lambda>img. None), predict = (\<lambda>img b. Inr [nat (fst b)])\<rparr>"

definition env_ok :: env where
  "env_ok =
     \<lparr>multi_modal_llm = Some (\<lambda>calls p docs. Inr ''chair''),
      detect_bboxes_with_owlv2 = (\<lambda>img p c n. Inr [region0]),
      open_rgb = (\<lambda>n. Inr [1, 2, 3]),
      open_path = (\<lambda>p. Inr [1, 2, 3]),
      sam2_from_pretrained = (\<lambda>name kw. Inr predictor_ok),
      mask_image = (\<lambda>ann. Inr ann),
      composite_crop = (\<lambda>img m b. Inr (m @ img)),
      pil_save = (\<lambda>img fmt. None)\<rparr>"

text \<open>The detector raises.\<close>

definition env_detector_raises :: env where
  "env_detector_raises =
     env_ok\<lparr>detect_bboxes_with_owlv2 := (\<lambda>img p c n. Inl (ProviderError ''owlv2''))\<rparr>"

text \<open>The crop raises for the box of \<open>region0\<close> only.\<close>

definition env_crop_raises :: env where
  "env_crop_raises =
     env_ok\<lparr>composite_crop :=
       (\<lambda>img m b. if fst b = 10 then Inl (ProviderError ''crop'') else Inr (m @ img))\<rparr>"

text \<open>Saving raises for the crop of \<open>region0\<close> only, and for every picture.\<close>

definition env_save_first_raises :: env where
  "env_save_first_raises =
     env_ok\<lparr>pil_save :=
       (\<lambda>img fmt. if img = [10, 1, 2, 3] then Some (ProviderError ''save'') else None)\<rparr>"

definition env_save_raises :: env where
  "env_save_raises = env_ok\<lparr>pil_save := (\<lambda>img fmt. Some (ProviderError ''save''))\<rparr>"

text \<open>The first call of the LLM raises, the later ones answer.\<close>

definition llm_flaky :: "llm_call list \<Rightarrow> string \<Rightarrow> image_node list \<Rightarrow> py_error + string" where
  "llm_flaky calls p docs = (if calls = [] then Inl (ProviderError ''llm'') else Inr ''a table'')"

definition env_llm_flaky :: env where
  "env_llm_flaky = env_ok\<lparr>multi_modal_llm := Some llm_flaky\<rparr>"

definition world0 :: world where
  "world0 = \<lparr>next_id = 100, llm_calls = [], sent = []\<rparr>"

definition start_path :: "py_config \<Rightarrow> start_event" where
  "start_path conf =
     \<lparr>start_image = None, start_base64_image = None, start_mimetype = None,
      start_image_path = Some ''./images/diablo_menu.png'',
      start_segmentation_configuration = conf,
      start_object_detection_configuration = None\<rparr>"

text \<open>The same start with a detection configuration of the caller's.\<close>

definition start_path_detection :: "py_config \<Rightarrow> start_event" where
  "start_path_detection conf =
     (start_path conf)\<lparr>start_object_detection_configuration :=
        Some (Map.empty(''confidence'' \<mapsto> 1 / 2, ''nms_threshold'' \<mapsto> 1 / 2))\<rparr>"

definition start_node :: "image_node \<Rightarrow> py_config \<Rightarrow> start_event" where
  "start_node n conf =
     \<lparr>start_image = Some (AnImageNode n), start_base64_image = None, start_mimetype = None,
      start_image_path = None,
      start_segmentation_configuration = conf,
      start_object_detection_configuration = None\<rparr>"

definition conf_model :: "string \<Rightarrow> conf_val option" where
  "conf_model = Map.empty(''model_name'' \<mapsto> VStr ''facebook/sam2-hiera-small'')"

definition conf_only_prompt :: "string \<Rightarrow> conf_val option" where
  "conf_only_prompt = Map.empty(''prompt'' \<mapsto> VStr ''chair'')"

definition conf_prompt :: "string \<Rightarrow> conf_val option" where
  "conf_prompt = conf_model(''prompt'' \<mapsto> VStr ''chair'')"

definition conf_boxes :: "string \<Rightarrow> conf_val option" where
  "conf_boxes = conf_model(''bbox_list'' \<mapsto> VRegions [region0, region1])"

text \<open>The document that \<open>load_image\<close> builds from the path in \<open>world0\<close>, and the world after it.\<close>

definition doc_jpg :: image_node where
  "doc_jpg = ImageDocument 100 (Some (Base64 ''JPEG'' [1, 2, 3])) ''image/jpg''"

definition world1 :: world where
  "world1 = \<lparr>next_id = 101, llm_calls = [], sent = []\<rparr>"

text \<open>The chunks of \<open>root_png\<close> for the two regions.\<close>

definition chunk_a :: image_node where
  "chunk_a = new_image_chunk 100 (Base64 ''JPEG'' [10, 1, 2, 3]) root_png region0"

definition chunk_b :: image_node where
  "chunk_b = new_image_chunk 101 (Base64 ''JPEG'' [0, 1, 2, 3]) root_png region1"

definition chunk_b_first :: image_node where
  "chunk_b_first = new_image_chunk 100 (Base64 ''JPEG'' [0, 1, 2, 3]) root_png region1"

section \<open>Unfolding the stages on the examples\<close>

lemmas example_defs =
  region0_def region1_def root_png_def predictor_ok_def env_ok_def
  world0_def world1_def start_path_def start_node_def conf_model_def
  conf_prompt_def conf_boxes_def doc_jpg_def chunk_a_def chunk_b_def

lemmas stage_defs =
  load_image_def return_image_loaded_event_def create_bboxes_def bbox_created_event_def
  stop_event_with_reason_def create_bboxes_try_def elicit_prompt_def
  parse_image_def parse_image_node_with_sam2_def image_to_base64_def ImageDocument_def
  odc_get_def object_detection_configuration_def default_predictor_configuration_def
  default_predictor_items_def no_relationships_def Let_def mask_and_crop_def
  register_children_def new_image_chunk_def describe_image_def describe_chunk_def
  ref_doc_id_def source_node_def as_related_node_info_def region_metadata_def

lemma load_ok_prompt:
  "load_image env_ok (start_path (PyDict conf_prompt)) world0 =
     (Inr (ImageLoadedEvent doc_jpg (PyDict conf_prompt) (Some object_detection_configuration)),
      PyDict conf_prompt, world1)"
  by (simp add: example_defs stage_defs)

lemma stage3_example:
  "parse_image_node_with_sam2 env_ok root_png (PyDict conf_boxes) world0 =
     (Inr [chunk_a, chunk_b], register_children root_png [chunk_a, chunk_b],
      \<lparr>next_id = 102, llm_calls = [],
       sent = [ImageChunkGenerated chunk_a, ImageChunkGenerated chunk_b]\<rparr>)"
  by (simp add: example_defs stage_defs)

section \<open>Stage 1: which configurations reach the detect stage\<close>

lemma load_image_conf:
  "start_segmentation_configuration start = PyDict d \<Longrightarrow> fst (snd (load_image env start w)) = PyDict d"
  by (simp add: load_image_def return_image_loaded_event_def Let_def
      split: option.splits image_arg.splits sum.splits)

lemma load_image_event_conf:
  assumes "load_image env start w = (Inr (ImageLoadedEvent img conf odc), conf0, w1)"
  shows "conf = conf0" and "llm_calls w1 = llm_calls w" and "sent w1 = sent w"
  using assms
  by (auto simp add: load_image_def return_image_loaded_event_def Let_def
      split: option.splits image_arg.splits sum.splits)

text \<open>A detection configuration that the caller passes changes nothing at stage 1.\<close>

lemma load_image_ignores_detection_configuration:
  "load_image env (start\<lparr>start_object_detection_configuration := x\<rparr>) w = load_image env start w"
  by (simp add: load_image_def Let_def split: option.splits image_arg.splits sum.splits)

text \<open>
  Without a configuration from the caller, the event is built from the class default,
  the one-element tuple, and holds the dict that the field makes of it: a dict with the
  one key \<^verbatim>\<open>model_name\<close>, whose value is the string \<^verbatim>\<open>sam_settings\<close>.
\<close>

lemma load_image_default_is_coerced:
  "load_image env_ok (start_path PyNone) world0 =
     (Inr (ImageLoadedEvent doc_jpg (PyDict (Map.empty(''model_name'' \<mapsto> VStr ''sam_settings'')))
             (Some object_detection_configuration)),
      PyDict (Map.empty(''model_name'' \<mapsto> VStr ''sam_settings'')), world1)"
  by (simp add: example_defs stage_defs)

text \<open>
  Claim C7 as stated fails. A caller who passes only a prompt gets a loaded configuration
  without the default key \<^verbatim>\<open>model_name\<close>, which the merge of the specification would
  keep; and a run started from an ImageNode gets no detection configuration at all.
\<close>

theorem C7_counterexample:
  "fst (load_image env_ok (start_path (PyDict conf_only_prompt)) world0) =
     Inr (ImageLoadedEvent doc_jpg (PyDict conf_only_prompt) (Some object_detection_configuration)) \<and>
   conf_only_prompt ''model_name'' = None \<and>
   spec_merged_configuration conf_only_prompt ''model_name'' = Some (VStr ''facebook/sam2-hiera-small'') \<and>
   fst (load_image env_ok (start_node root_png (PyDict conf_boxes)) world0) =
     Inr (ImageLoadedEvent root_png (PyDict conf_boxes) None)"
  by (simp add: example_defs conf_only_prompt_def stage_defs spec_merged_configuration_def)

text \<open>
  Claim C7, amended. At stage 1 a segmentation configuration dict supplied by the caller
  is passed on as it is, in place of the default one: the keys it leaves out are not
  filled in from the defaults. When the image comes from a path, the detect stage gets
  the default detection configuration, from which it reads confidence 0.1 and NMS
  threshold 0.3, whatever detection configuration the caller supplies.
\<close>

theorem C7_load_image_configuration:
  assumes "load_image env start w = (Inr (ImageLoadedEvent img conf odc), conf0, w')"
  shows "(start_segmentation_configuration start = PyDict d \<longrightarrow> conf = PyDict d) \<and>
         (takes_path_branch start \<longrightarrow>
            odc = Some object_detection_configuration \<and>
            odc_get odc ''confidence'' c = Inr (1 / 10) \<and>
            odc_get odc ''nms_threshold'' n = Inr (3 / 10))"
  using assms
  by (auto simp add: load_image_def return_image_loaded_event_def Let_def takes_path_branch_def
      odc_get_def object_detection_configuration_def
      split: option.splits image_arg.splits sum.splits if_splits)

text \<open>
  C7 amended, on the run from a path with a caller configuration and a detection
  configuration of the caller's that is not read.
\<close>

theorem C7_witness:
  "start_segmentation_configuration (start_path_detection (PyDict conf_prompt)) = PyDict conf_prompt \<and>
   takes_path_branch (start_path_detection (PyDict conf_prompt)) \<and>
   fst (load_image env_ok (start_path_detection (PyDict conf_prompt)) world0) =
     Inr (ImageLoadedEvent doc_jpg (PyDict conf_prompt) (Some object_detection_configuration)) \<and>
   odc_get (Some object_detection_configuration) ''confidence'' 0 = Inr (1 / 10) \<and>
   odc_get (Some object_detection_configuration) ''nms_threshold'' 0 = Inr (3 / 10)"
proof -
  have cfg: "start_segmentation_configuration (start_path_detection (PyDict conf_prompt)) = PyDict conf_prompt"
    by (simp add: start_path_detection_def start_path_def)
  have path: "takes_path_branch (start_path_detection (PyDict conf_prompt))"
    by (simp add: takes_path_branch_def start_path_detection_def start_path_def)
  have load: "load_image env_ok (start_path_detection (PyDict conf_prompt)) world0 =
     (Inr (ImageLoadedEvent doc_jpg (PyDict conf_prompt) (Some object_detection_configuration)),
      PyDict conf_prompt, world1)"
    by (simp add: start_path_detection_def load_image_ignores_detection_configuration load_ok_prompt)
  from C7_load_image_configuration[OF load, of conf_prompt 0 0] cfg path load
  show ?thesis by simp
qed

section \<open>Stage 2: failures of the detection and the elicited prompt\<close>

text \<open>Any exception of the try block makes the handler raise TypeError, which ends the run.\<close>

lemma create_bboxes_handler_raises:
  assumes "create_bboxes_try env img conf odc w = (Inl e, conf', w')"
  shows "create_bboxes env img conf odc w = (Inl TypeError, conf', w')"
  using assms by (simp add: create_bboxes_def stop_event_with_reason_def)

lemma stage2_exception_escapes:
  assumes "load_image env start w = (Inr (ImageLoadedEvent img conf odc), conf0, w1)"
    and "create_bboxes_try env img conf odc w1 = (Inl e, conf', w')"
  shows "run env start w = (Inl TypeError, conf', w')"
  using assms
  by (simp add: run_def create_bboxes_def stop_event_with_reason_def dispatch_bboxes_def)

lemma elicitation_raises:
  assumes "py_contains conf ''bbox_list'' = Inr False" and "py_contains conf ''prompt'' = Inr False"
    and "multi_modal_llm env = Some llm" and "llm (llm_calls w) elicitation_prompt [img] = Inl e"
  shows "fst (create_bboxes_try env img conf odc w) = Inl e"
  using assms by (simp add: create_bboxes_try_def elicit_prompt_def Let_def)

lemma detector_raises:
  assumes "py_contains conf ''bbox_list'' = Inr False"
    and "elicit_prompt env img conf w = (Inr (), conf', w')"
    and "py_getitem conf' ''prompt'' = Inr p"
    and "odc = Some d"
    and "detect_bboxes_with_owlv2 env img p
           (case d ''confidence'' of None \<Rightarrow> 1 / 10 | Some v \<Rightarrow> v)
           (case d ''nms_threshold'' of None \<Rightarrow> 3 / 10 | Some v \<Rightarrow> v) = Inl e"
  shows "fst (create_bboxes_try env img conf odc w) = Inl e"
  using assms by (simp add: create_bboxes_try_def odc_get_def)

text \<open>
  For every run that loads an image and whose configuration has no \<^verbatim>\<open>bbox_list\<close>: if the
  elicitation of the prompt raises, or the detector raises on the call stage 2 makes, the
  run ends with the TypeError of the handler and reaches no StopEvent.
\<close>

lemma detection_failure_escapes:
  assumes "load_image env start w = (Inr (ImageLoadedEvent img conf odc), conf0, w1)"
    and "py_contains conf ''bbox_list'' = Inr False"
    and "(py_contains conf ''prompt'' = Inr False \<and> multi_modal_llm env = Some llm \<and>
          llm (llm_calls w1) elicitation_prompt [img] = Inl e1) \<or>
         (elicit_prompt env img conf w1 = (Inr (), conf', w') \<and>
          py_getitem conf' ''prompt'' = Inr p \<and> odc = Some d \<and>
          detect_bboxes_with_owlv2 env img p
            (case d ''confidence'' of None \<Rightarrow> 1 / 10 | Some v \<Rightarrow> v)
            (case d ''nms_threshold'' of None \<Rightarrow> 3 / 10 | Some v \<Rightarrow> v) = Inl e2)"
  shows "fst (run env start w) = Inl TypeError"
proof -
  from assms(3) have "\<exists>e. fst (create_bboxes_try env img conf odc w1) = Inl e"
  proof
    assume "py_contains conf ''prompt'' = Inr False \<and> multi_modal_llm env = Some llm \<and>
          llm (llm_calls w1) elicitation_prompt [img] = Inl e1"
    with elicitation_raises[OF assms(2), of env llm w1 img e1 odc] show ?thesis by blast
  next
    assume "elicit_prompt env img conf w1 = (Inr (), conf', w') \<and>
          py_getitem conf' ''prompt'' = Inr p \<and> odc = Some d \<and>
          detect_bboxes_with_owlv2 env img p
            (case d ''confidence'' of None \<Rightarrow> 1 / 10 | Some v \<Rightarrow> v)
            (case d ''nms_threshold'' of None \<Rightarrow> 3 / 10 | Some v \<Rightarrow> v) = Inl e2"
    with detector_raises[OF assms(2), of env img w1 conf' w' p odc d e2] show ?thesis by blast
  qed
  then obtain e c2 w2 where "create_bboxes_try env img conf odc w1 = (Inl e, c2, w2)"
    by (cases "create_bboxes_try env img conf odc w1") auto
  from stage2_exception_escapes[OF assms(1) this] show ?thesis by simp
qed

text \<open>
  Claim C2 does not hold of the code. On a run from a path whose configuration has a
  prompt and no \<^verbatim>\<open>bbox_list\<close>, with a detector that raises, the try block of
  \<^verbatim>\<open>create_bboxes\<close> ends with the detector's exception; the handler then calls
  \<^verbatim>\<open>StopEvent(reason=...)\<close>, which raises TypeError, and the run ends with that exception:
  it reaches no StopEvent and returns no failure reason. The same happens when the
  configuration has no prompt and the elicitation raises.
\<close>

theorem C2_failure_handler_raises:
  "create_bboxes_try env_detector_raises doc_jpg (PyDict conf_prompt)
       (Some object_detection_configuration) world1 =
     (Inl (ProviderError ''owlv2''), PyDict conf_prompt, world1) \<and>
   stop_event_with_reason bbox_failure_reason = Inl TypeError \<and>
   run env_detector_raises (start_path (PyDict conf_prompt)) world0 =
     (Inl TypeError, PyDict conf_prompt, world1) \<and>
   llm_flaky (llm_calls world1) elicitation_prompt [doc_jpg] = Inl (ProviderError ''llm'') \<and>
   fst (run env_llm_flaky (start_path (PyDict conf_model)) world0) = Inl TypeError"
proof -
  have load: "load_image env_detector_raises (start_path (PyDict conf_prompt)) world0 =
     (Inr (ImageLoadedEvent doc_jpg (PyDict conf_prompt) (Some object_detection_configuration)),
      PyDict conf_prompt, world1)"
    by (simp add: example_defs env_detector_raises_def stage_defs)
  have raises: "create_bboxes_try env_detector_raises doc_jpg (PyDict conf_prompt)
       (Some object_detection_configuration) world1 =
     (Inl (ProviderError ''owlv2''), PyDict conf_prompt, world1)"
    by (simp add: example_defs env_detector_raises_def stage_defs dom_def)
  have run1: "run env_detector_raises (start_path (PyDict conf_prompt)) world0 =
     (Inl TypeError, PyDict conf_prompt, world1)"
    by (rule stage2_exception_escapes[OF load raises])
  have load2: "load_image env_llm_flaky (start_path (PyDict conf_model)) world0 =
     (Inr (ImageLoadedEvent doc_jpg (PyDict conf_model) (Some object_detection_configuration)),
      PyDict conf_model, world1)"
    by (simp add: example_defs env_llm_flaky_def stage_defs)
  have nb2: "py_contains (PyDict conf_model) ''bbox_list'' = Inr False"
    by (simp add: example_defs dom_def)
  have raises2: "py_contains (PyDict conf_model) ''prompt'' = Inr False \<and>
     multi_modal_llm env_llm_flaky = Some llm_flaky \<and>
     llm_flaky (llm_calls world1) elicitation_prompt [doc_jpg] = Inl (ProviderError ''llm'')"
    by (simp add: example_defs env_llm_flaky_def llm_flaky_def dom_def)
  have run2: "fst (run env_llm_flaky (start_path (PyDict conf_model)) world0) = Inl TypeError"
    by (rule detection_failure_escapes[OF load2 nb2 disjI1, OF raises2])
  show ?thesis using raises run1 raises2 run2 by (simp add: stop_event_with_reason_def)
qed

text \<open>
  Claim C9. When the caller's segmentation configuration is a dict with neither
  \<^verbatim>\<open>bbox_list\<close> nor \<^verbatim>\<open>prompt\<close> and the LLM answers the elicitation with a text, the
  configuration that stage 1 hands on is the caller's dict, and after stage 2, and at the
  end of the run whatever happens later, that dict maps \<^verbatim>\<open>prompt\<close> to the text and is
  otherwise unchanged.
\<close>

theorem C9_prompt_written_into_caller_configuration:
  assumes "start_segmentation_configuration start = PyDict d"
    and "d ''bbox_list'' = None" and "d ''prompt'' = None"
    and "load_image env start w = (Inr (ImageLoadedEvent img conf odc), conf0, w1)"
    and "multi_modal_llm env = Some llm"
    and "llm (llm_calls w1) elicitation_prompt [img] = Inr txt"
  shows "conf = PyDict d \<and>
         fst (snd (create_bboxes env img conf odc w1)) = PyDict (d(''prompt'' \<mapsto> VStr txt)) \<and>
         fst (snd (run env start w)) = PyDict (d(''prompt'' \<mapsto> VStr txt))"
proof -
  have "fst (snd (load_image env start w)) = PyDict d"
    using assms(1) by (rule load_image_conf)
  with assms(4) load_image_event_conf(1)[OF assms(4)] have conf: "conf = PyDict d" by simp
  have el: "elicit_prompt env img (PyDict d) w1 =
          (Inr (), PyDict (d(''prompt'' \<mapsto> VStr txt)),
           w1\<lparr>llm_calls := llm_calls w1 @ [(elicitation_prompt, [img])]\<rparr>)"
    using assms(3,5,6) by (simp add: elicit_prompt_def Let_def dom_def)
  have tr: "fst (snd (create_bboxes_try env img (PyDict d) odc w1)) = PyDict (d(''prompt'' \<mapsto> VStr txt))"
    using assms(2) el by (simp add: create_bboxes_try_def dom_def split: sum.splits)
  have cb: "fst (snd (create_bboxes env img (PyDict d) odc w1)) = PyDict (d(''prompt'' \<mapsto> VStr txt))"
    using tr by (auto simp add: create_bboxes_def split: prod.splits sum.splits)
  have "fst (snd (dispatch_bboxes env r)) = fst (snd r)" for r
    by (simp add: dispatch_bboxes_def split: prod.splits sum.splits event.splits)
  then have "fst (snd (run env start w)) = fst (snd (create_bboxes env img conf odc w1))"
    using assms(4) by (simp add: run_def)
  with cb conf show ?thesis by simp
qed

text \<open>C9 on the run from a path whose configuration names only the model.\<close>

theorem C9_witness:
  "conf_model ''bbox_list'' = None \<and> conf_model ''prompt'' = None \<and>
   fst (snd (run env_ok (start_path (PyDict conf_model)) world0)) =
     PyDict (conf_model(''prompt'' \<mapsto> VStr ''chair''))"
proof -
  have cfg: "start_segmentation_configuration (start_path (PyDict conf_model)) = PyDict conf_model"
    by (simp add: start_path_def)
  have nb: "conf_model ''bbox_list'' = None" and np: "conf_model ''prompt'' = None"
    by (simp_all add: conf_model_def)
  have load: "load_image env_ok (start_path (PyDict conf_model)) world0 =
     (Inr (ImageLoadedEvent doc_jpg (PyDict conf_model) (Some object_detection_configuration)),
      PyDict conf_model, world1)"
    by (simp add: example_defs stage_defs)
  have llm: "multi_modal_llm env_ok = Some (\<lambda>calls p docs. Inr ''chair'')"
    by (simp add: env_ok_def)
  have ans: "(\<lambda>calls p docs. Inr ''chair'') (llm_calls world1) elicitation_prompt [doc_jpg] =
               (Inr ''chair'' :: py_error + string)"
    by simp
  from C9_prompt_written_into_caller_configuration[OF cfg nb np load llm ans] nb np
  show ?thesis by simp
qed

section \<open>Stage 3: the chunks and the lineage\<close>

text \<open>
  Every chunk the second loop returns beyond the ones it started with was built by
  \<open>new_image_chunk\<close> from a JPEG payload and the root node.
\<close>

lemma crop_chunks_shape:
  "crop_chunks env rootn img zs acc w = (Inr cs, w') \<Longrightarrow>
     \<exists>new. cs = acc @ new \<and> (\<forall>c\<in>set new. \<exists>i px bbox. c = new_image_chunk i (Base64 ''JPEG'' px) rootn bbox)"
proof (induction zs arbitrary: acc w)
  case Nil
  then show ?case by simp
next
  case (Cons z zs)
  obtain ann bbox where z: "z = (ann, bbox)" by (cases z)
  show ?case
  proof (cases "mask_and_crop env img ann bbox")
    case (Inl e)
    with Cons.prems z show ?thesis by simp
  next
    case (Inr cropped)
    show ?thesis
    proof (cases "pil_save env cropped ''JPEG''")
      case (Some e)
      with Cons.prems z Inr
      have "crop_chunks env rootn img zs acc (w\<lparr>sent := sent w @ [WorkflowRuntimeError e]\<rparr>) = (Inr cs, w')"
        by (simp add: image_to_base64_def)
      from Cons.IH[OF this] show ?thesis .
    next
      case None
      let ?c = "new_image_chunk (next_id w) (Base64 ''JPEG'' cropped) rootn bbox"
      from Cons.prems z Inr None
      have "crop_chunks env rootn img zs (acc @ [?c])
              (w\<lparr>next_id := Suc (next_id w), sent := sent w @ [ImageChunkGenerated ?c]\<rparr>) = (Inr cs, w')"
        by (simp add: image_to_base64_def Let_def)
      from Cons.IH[OF this] obtain new where
        new: "cs = (acc @ [?c]) @ new"
          "\<forall>c\<in>set new. \<exists>i px bbox. c = new_image_chunk i (Base64 ''JPEG'' px) rootn bbox"
        by blast
      have "cs = acc @ (?c # new)" using new(1) by simp
      moreover have "\<forall>c\<in>set (?c # new). \<exists>i px bbox. c = new_image_chunk i (Base64 ''JPEG'' px) rootn bbox"
        using new(2) by auto
      ultimately show ?thesis by blast
    qed
  qed
qed

lemma parse_image_node_with_sam2_Inr:
  assumes "parse_image_node_with_sam2 env rootn conf w = (Inr cs, rootn', w')"
  shows "\<exists>img zs. crop_chunks env rootn img zs [] w = (Inr cs, w') \<and> rootn' = register_children rootn cs"
  using assms unfolding parse_image_node_with_sam2_def
  by (auto split: sum.splits option.splits prod.splits)

lemma stage3_chunks_shape:
  assumes "parse_image_node_with_sam2 env rootn conf w = (Inr cs, rootn', w')"
  shows "\<forall>c\<in>set cs. \<exists>i px bbox. c = new_image_chunk i (Base64 ''JPEG'' px) rootn bbox"
proof -
  from parse_image_node_with_sam2_Inr[OF assms] obtain img zs where
    "crop_chunks env rootn img zs [] w = (Inr cs, w')" by blast
  from crop_chunks_shape[OF this] show ?thesis by simp
qed

text \<open>
  Claim C3. Every chunk that stage 3 returns has the root image node as its PARENT, and
  its SOURCE is the source the root has recorded if it has one, else the root itself;
  so the lineage rule \<open>ref_doc_id\<close> resolves the chunk to what it resolves the root to.
\<close>

theorem C3_chunk_lineage:
  assumes "parse_image_node_with_sam2 env rootn conf w = (Inr cs, rootn', w')"
    and "c \<in> set cs"
  shows "PARENT (relationships c) = Some (RelatedNodeInfo (node_id rootn)) \<and>
         SOURCE (relationships c) =
           Some (case SOURCE (relationships rootn) of
                   Some src \<Rightarrow> src
                 | None \<Rightarrow> RelatedNodeInfo (node_id rootn)) \<and>
         ref_doc_id c = ref_doc_id rootn"
proof -
  from stage3_chunks_shape[OF assms(1)] assms(2)
  obtain i px bbox where "c = new_image_chunk i (Base64 ''JPEG'' px) rootn bbox" by blast
  then show ?thesis
    by (simp add: new_image_chunk_def ref_doc_id_def source_node_def as_related_node_info_def
        split: option.splits)
qed

text \<open>C3 on the PNG root, whose recorded source is the document 7.\<close>

theorem C3_witness:
  "fst (parse_image_node_with_sam2 env_ok root_png (PyDict conf_boxes) world0) = Inr [chunk_a, chunk_b] \<and>
   PARENT (relationships chunk_b) = Some (RelatedNodeInfo 0) \<and>
   SOURCE (relationships chunk_b) = Some (RelatedNodeInfo 7) \<and>
   ref_doc_id chunk_b = RelatedNodeInfo 7"
  using C3_chunk_lineage[OF stage3_example, of chunk_b] stage3_example
  by (simp add: root_png_def ref_doc_id_def source_node_def)

text \<open>
  Claim C10. Every chunk that stage 3 returns holds a payload encoded as JPEG and
  declares the mimetype of the root node; so under any reading \<open>declares_jpeg\<close> of
  which mimetypes announce JPEG, a root whose mimetype does not announce JPEG yields
  chunks whose mimetype does not announce the JPEG they hold.
\<close>

theorem C10_chunks_jpeg_with_root_mimetype:
  assumes "parse_image_node_with_sam2 env rootn conf w = (Inr cs, rootn', w')"
    and "c \<in> set cs"
  shows "map_option enc_format (image c) = Some ''JPEG'' \<and> mimetype c = mimetype rootn \<and>
         (\<not> declares_jpeg (mimetype rootn) \<longrightarrow> \<not> declares_jpeg (mimetype c))"
proof -
  from stage3_chunks_shape[OF assms(1)] assms(2)
  obtain i px bbox where "c = new_image_chunk i (Base64 ''JPEG'' px) rootn bbox" by blast
  then show ?thesis by (simp add: new_image_chunk_def)
qed

text \<open>C10 on the PNG root: the chunk holds JPEG and declares \<^verbatim>\<open>image/png\<close>.\<close>

theorem C10_witness:
  "fst (parse_image_node_with_sam2 env_ok root_png (PyDict conf_boxes) world0) = Inr [chunk_a, chunk_b] \<and>
   map_option enc_format (image chunk_a) = Some ''JPEG'' \<and>
   mimetype chunk_a = ''image/png'' \<and> mimetype root_png = ''image/png'' \<and>
   ''image/png'' \<noteq> ''image/jpeg''"
  using C10_chunks_jpeg_with_root_mimetype[OF stage3_example, of chunk_a "\<lambda>m. m = ''image/jpeg''"]
    stage3_example
  by (simp add: root_png_def)

section \<open>Stage 3: the children of the root\<close>

lemma generated_chunks_append:
  "generated_chunks (xs @ ys) = generated_chunks xs @ generated_chunks ys"
  by (induction xs rule: generated_chunks.induct) simp_all

lemma crop_chunks_generated:
  "crop_chunks env rootn img zs acc w = (Inr cs, w') \<Longrightarrow>
     \<exists>new. cs = acc @ new \<and> generated_chunks (sent w') = generated_chunks (sent w) @ new"
proof (induction zs arbitrary: acc w)
  case Nil
  then show ?case by simp
next
  case (Cons z zs)
  obtain ann bbox where z: "z = (ann, bbox)" by (cases z)
  show ?case
  proof (cases "mask_and_crop env img ann bbox")
    case (Inl e)
    with Cons.prems z show ?thesis by simp
  next
    case (Inr cropped)
    show ?thesis
    proof (cases "pil_save env cropped ''JPEG''")
      case (Some e)
      with Cons.prems z Inr
      have "crop_chunks env rootn img zs acc (w\<lparr>sent := sent w @ [WorkflowRuntimeError e]\<rparr>) = (Inr cs, w')"
        by (simp add: image_to_base64_def)
      from Cons.IH[OF this] show ?thesis by (simp add: generated_chunks_append)
    next
      case None
      let ?c = "new_image_chunk (next_id w) (Base64 ''JPEG'' cropped) rootn bbox"
      from Cons.prems z Inr None
      have "crop_chunks env rootn img zs (acc @ [?c])
              (w\<lparr>next_id := Suc (next_id w), sent := sent w @ [ImageChunkGenerated ?c]\<rparr>) = (Inr cs, w')"
        by (simp add: image_to_base64_def Let_def)
      from Cons.IH[OF this] obtain new where
        "cs = (acc @ [?c]) @ new"
        "generated_chunks (sent w') =
           generated_chunks (sent (w\<lparr>next_id := Suc (next_id w), sent := sent w @ [ImageChunkGenerated ?c]\<rparr>)) @ new"
        by blast
      then have "cs = acc @ (?c # new) \<and> generated_chunks (sent w') = generated_chunks (sent w) @ (?c # new)"
        by (simp add: generated_chunks_append)
      then show ?thesis by blast
    qed
  qed
qed

text \<open>
  Claim C6. When stage 3 returns its chunks, the CHILD relationship of the root is the
  collection it had before (empty if it had none) followed by the references of all
  chunks but the first, in the order of the chunk list; and that order is the order of
  production, the one in which the ImageChunkGenerated events were sent.
\<close>

theorem C6_children_registered:
  assumes "parse_image_node_with_sam2 env rootn conf w = (Inr cs, rootn', w')"
  shows "CHILD (relationships rootn') =
           Some ((case CHILD (relationships rootn) of None \<Rightarrow> [] | Some refs \<Rightarrow> refs)
                 @ map as_related_node_info (tl cs)) \<and>
         generated_chunks (sent w') = generated_chunks (sent w) @ cs"
proof -
  from parse_image_node_with_sam2_Inr[OF assms] obtain img zs where
    loop: "crop_chunks env rootn img zs [] w = (Inr cs, w')" and
    reg: "rootn' = register_children rootn cs" by blast
  from crop_chunks_generated[OF loop]
  have "generated_chunks (sent w') = generated_chunks (sent w) @ cs" by simp
  with reg show ?thesis by (simp add: register_children_def Let_def drop_Suc)
qed

text \<open>C6 on the PNG root with one earlier child: of the chunks 100 and 101 only 101 is added.\<close>

theorem C6_witness:
  "fst (parse_image_node_with_sam2 env_ok root_png (PyDict conf_boxes) world0) = Inr [chunk_a, chunk_b] \<and>
   CHILD (relationships (register_children root_png [chunk_a, chunk_b])) =
     Some [RelatedNodeInfo 3, RelatedNodeInfo 101]"
  using C6_children_registered[OF stage3_example] stage3_example
  by (simp add: root_png_def chunk_b_def new_image_chunk_def as_related_node_info_def)

section \<open>Stage 3: which failures stay local\<close>

text \<open>
  Claim C8 as stated fails. The crop of the first region raises before the \<^verbatim>\<open>try\<close>:
  stage 3 ends with that exception, nothing is sent, no chunk is returned although the
  second region can be masked and cropped, and the run ends with the exception.
\<close>

theorem C8_counterexample:
  "parse_image_node_with_sam2 env_crop_raises root_png (PyDict conf_boxes) world0 =
     (Inl (ProviderError ''crop''), root_png, world0) \<and>
   run env_crop_raises (start_node root_png (PyDict conf_boxes)) world0 =
     (Inl (ProviderError ''crop''), PyDict conf_boxes, world0) \<and>
   mask_and_crop env_crop_raises [1, 2, 3] [0] region1 = Inr [0, 1, 2, 3]"
proof -
  have parse: "parse_image_node_with_sam2 env_crop_raises root_png (PyDict conf_boxes) world0 =
     (Inl (ProviderError ''crop''), root_png, world0)"
    by (simp add: example_defs env_crop_raises_def stage_defs)
  have load: "load_image env_crop_raises (start_node root_png (PyDict conf_boxes)) world0 =
     (Inr (ImageLoadedEvent root_png (PyDict conf_boxes) None), PyDict conf_boxes, world0)"
    by (simp add: example_defs env_crop_raises_def stage_defs)
  have boxes: "create_bboxes env_crop_raises root_png (PyDict conf_boxes) None world0 =
     (Inr (BBoxCreatedEvent root_png (PyDict conf_boxes) None), PyDict conf_boxes, world0)"
    by (simp add: example_defs env_crop_raises_def stage_defs)
  have "run env_crop_raises (start_node root_png (PyDict conf_boxes)) world0 =
     (Inl (ProviderError ''crop''), PyDict conf_boxes, world0)"
    by (simp add: run_def load boxes dispatch_bboxes_def dispatch_parsed_def parse_image_def parse)
  moreover have "mask_and_crop env_crop_raises [1, 2, 3] [0] region1 = Inr [0, 1, 2, 3]"
    by (simp add: example_defs env_crop_raises_def stage_defs)
  ultimately show ?thesis using parse by simp
qed

lemma crop_chunks_local:
  assumes "\<forall>z\<in>set zs. \<not> isl (mask_and_crop env img (fst z) (snd z))"
  shows "\<exists>new w'. crop_chunks env rootn img zs acc w = (Inr (acc @ new), w') \<and>
           map metadata new = map (\<lambda>z. region_metadata (snd z)) (filter (chunk_encodes env img) zs) \<and>
           length (filter is_runtime_error (sent w')) =
             length (filter is_runtime_error (sent w)) +
             length (filter (\<lambda>z. \<not> chunk_encodes env img z) zs) \<and>
           generated_chunks (sent w') = generated_chunks (sent w) @ new"
  using assms
proof (induction zs arbitrary: acc w)
  case Nil
  then show ?case by simp
next
  case (Cons z zs)
  obtain ann bbox where z: "z = (ann, bbox)" by (cases z)
  from Cons.prems z obtain cropped where mc: "mask_and_crop env img ann bbox = Inr cropped"
    by (cases "mask_and_crop env img ann bbox") auto
  from Cons.prems have rest: "\<forall>z\<in>set zs. \<not> isl (mask_and_crop env img (fst z) (snd z))" by simp
  show ?case
  proof (cases "pil_save env cropped ''JPEG''")
    case (Some e)
    let ?w1 = "w\<lparr>sent := sent w @ [WorkflowRuntimeError e]\<rparr>"
    have step: "crop_chunks env rootn img (z # zs) acc w = crop_chunks env rootn img zs acc ?w1"
      using z mc Some by (simp add: image_to_base64_def)
    have no: "\<not> chunk_encodes env img z"
      using z mc Some by (simp add: chunk_encodes_def)
    from Cons.IH[OF rest, of acc ?w1] obtain new w' where
      ih: "crop_chunks env rootn img zs acc ?w1 = (Inr (acc @ new), w')"
        "map metadata new = map (\<lambda>z. region_metadata (snd z)) (filter (chunk_encodes env img) zs)"
        "length (filter is_runtime_error (sent w')) =
           length (filter is_runtime_error (sent ?w1)) +
           length (filter (\<lambda>z. \<not> chunk_encodes env img z) zs)"
        "generated_chunks (sent w') = generated_chunks (sent ?w1) @ new"
      by blast
    show ?thesis
      using step ih no by (simp add: generated_chunks_append)
  next
    case None
    let ?c = "new_image_chunk (next_id w) (Base64 ''JPEG'' cropped) rootn bbox"
    let ?w1 = "w\<lparr>next_id := Suc (next_id w), sent := sent w @ [ImageChunkGenerated ?c]\<rparr>"
    have step: "crop_chunks env rootn img (z # zs) acc w = crop_chunks env rootn img zs (acc @ [?c]) ?w1"
      using z mc None by (simp add: image_to_base64_def Let_def)
    have yes: "chunk_encodes env img z"
      using z mc None by (simp add: chunk_encodes_def)
    from Cons.IH[OF rest, of "acc @ [?c]" ?w1] obtain new w' where
      ih: "crop_chunks env rootn img zs (acc @ [?c]) ?w1 = (Inr ((acc @ [?c]) @ new), w')"
        "map metadata new = map (\<lambda>z. region_metadata (snd z)) (filter (chunk_encodes env img) zs)"
        "length (filter is_runtime_error (sent w')) =
           length (filter is_runtime_error (sent ?w1)) +
           length (filter (\<lambda>z. \<not> chunk_encodes env img z) zs)"
        "generated_chunks (sent w') = generated_chunks (sent ?w1) @ new"
      by blast
    have md: "metadata ?c = region_metadata bbox" by (simp add: new_image_chunk_def)
    have "crop_chunks env rootn img (z # zs) acc w = (Inr (acc @ (?c # new)), w')"
      using step ih(1) by simp
    moreover have "map metadata (?c # new) =
        map (\<lambda>z. region_metadata (snd z)) (filter (chunk_encodes env img) (z # zs))"
      using ih(2) yes md z by simp
    moreover have "length (filter is_runtime_error (sent w')) =
             length (filter is_runtime_error (sent w)) +
             length (filter (\<lambda>z. \<not> chunk_encodes env img z) (z # zs))"
      using ih(3) yes by simp
    moreover have "generated_chunks (sent w') = generated_chunks (sent w) @ (?c # new)"
      using ih(4) by (simp add: generated_chunks_append)
    ultimately show ?thesis by blast
  qed
qed

text \<open>
  Claim C8, amended. In the crop loop of stage 3, a failure of a region's encoding step is
  local: when no region fails in its mask or crop step, the loop returns (nothing
  escapes), the chunks it returns are those of the regions whose encoding succeeds, in
  order, and it sends one WorkflowRuntimeError event for each region whose encoding fails.
\<close>

theorem C8_encode_failure_is_local:
  assumes "\<forall>z\<in>set zs. \<not> isl (mask_and_crop env img (fst z) (snd z))"
  shows "\<exists>cs w'. crop_chunks env rootn img zs [] w = (Inr cs, w') \<and>
           map metadata cs = map (\<lambda>z. region_metadata (snd z)) (filter (chunk_encodes env img) zs) \<and>
           length (filter is_runtime_error (sent w')) =
             length (filter is_runtime_error (sent w)) +
             length (filter (\<lambda>z. \<not> chunk_encodes env img z) zs)"
  using crop_chunks_local[OF assms, of rootn "[]" w] by auto

text \<open>C8 amended, on two regions of which the first cannot be saved.\<close>

theorem C8_witness:
  "crop_chunks env_save_first_raises root_png [1, 2, 3] [([10], region0), ([0], region1)] [] world0 =
     (Inr [chunk_b_first],
      \<lparr>next_id = 101, llm_calls = [],
       sent = [WorkflowRuntimeError (ProviderError ''save''), ImageChunkGenerated chunk_b_first]\<rparr>) \<and>
   metadata chunk_b_first = region_metadata region1 \<and>
   \<not> chunk_encodes env_save_first_raises [1, 2, 3] ([10], region0) \<and>
   chunk_encodes env_save_first_raises [1, 2, 3] ([0], region1)"
proof -
  have ok: "\<forall>z\<in>set [([10], region0), ([0], region1)].
              \<not> isl (mask_and_crop env_save_first_raises [1, 2, 3] (fst z) (snd z))"
    by (simp add: example_defs env_save_first_raises_def chunk_b_first_def stage_defs)
  have ev: "crop_chunks env_save_first_raises root_png [1, 2, 3] [([10], region0), ([0], region1)] [] world0 =
     (Inr [chunk_b_first],
      \<lparr>next_id = 101, llm_calls = [],
       sent = [WorkflowRuntimeError (ProviderError ''save''), ImageChunkGenerated chunk_b_first]\<rparr>)"
    by (simp add: example_defs env_save_first_raises_def chunk_b_first_def stage_defs)
  have enc: "\<not> chunk_encodes env_save_first_raises [1, 2, 3] ([10], region0) \<and>
   chunk_encodes env_save_first_raises [1, 2, 3] ([0], region1)"
    by (simp add: chunk_encodes_def example_defs env_save_first_raises_def stage_defs)
  from C8_encode_failure_is_local[OF ok, of root_png world0] ev enc
  show ?thesis by (simp add: chunk_b_first_def new_image_chunk_def)
qed

text \<open>The loop raises exactly when the mask or the crop of some region raises.\<close>

lemma crop_chunks_raises_iff:
  "isl (fst (crop_chunks env rootn img zs acc w)) =
     (\<exists>z\<in>set zs. isl (mask_and_crop env img (fst z) (snd z)))"
proof (induction zs arbitrary: acc w)
  case Nil
  then show ?case by simp
next
  case (Cons z zs)
  obtain ann bbox where z: "z = (ann, bbox)" by (cases z)
  show ?case
  proof (cases "mask_and_crop env img ann bbox")
    case (Inl e)
    with z show ?thesis by simp
  next
    case (Inr cropped)
    with z show ?thesis
      by (cases "pil_save env cropped ''JPEG''") (simp_all add: image_to_base64_def Let_def Cons.IH)
  qed
qed

section \<open>Stage 4: the descriptions\<close>

lemma describe_chunks_acc:
  "describe_chunks llm src cs acc w =
     (acc @ fst (describe_chunks llm src cs [] w), snd (describe_chunks llm src cs [] w))"
proof (induction cs arbitrary: acc w)
  case Nil
  then show ?case by simp
next
  case (Cons c cs)
  obtain d w1 where step: "describe_chunk llm src c w = (d, w1)" by (cases "describe_chunk llm src c w")
  have "describe_chunks llm src (c # cs) acc w = describe_chunks llm src cs (acc @ [d]) w1"
    using step by simp
  also have "\<dots> = ((acc @ [d]) @ fst (describe_chunks llm src cs [] w1), snd (describe_chunks llm src cs [] w1))"
    by (rule Cons.IH)
  finally have l: "describe_chunks llm src (c # cs) acc w =
      (acc @ d # fst (describe_chunks llm src cs [] w1), snd (describe_chunks llm src cs [] w1))" by simp
  have "describe_chunks llm src (c # cs) [] w = describe_chunks llm src cs [d] w1"
    using step by simp
  also have "\<dots> = ([d] @ fst (describe_chunks llm src cs [] w1), snd (describe_chunks llm src cs [] w1))"
    by (rule Cons.IH)
  finally have r: "describe_chunks llm src (c # cs) [] w =
      (d # fst (describe_chunks llm src cs [] w1), snd (describe_chunks llm src cs [] w1))" by simp
  show ?case by (simp only: l r fst_conv snd_conv)
qed

lemma describe_chunks_Cons:
  "describe_chunks llm src (c # cs) [] w =
     (fst (describe_chunk llm src c w) # fst (describe_chunks llm src cs [] (snd (describe_chunk llm src c w))),
      snd (describe_chunks llm src cs [] (snd (describe_chunk llm src c w))))"
proof -
  obtain d w1 where step: "describe_chunk llm src c w = (d, w1)" by (cases "describe_chunk llm src c w")
  have "describe_chunks llm src (c # cs) [] w = describe_chunks llm src cs [d] w1"
    using step by simp
  also have "\<dots> = ([d] @ fst (describe_chunks llm src cs [] w1), snd (describe_chunks llm src cs [] w1))"
    by (rule describe_chunks_acc)
  finally show ?thesis using step by simp
qed

lemma describe_chunks_length:
  "length (fst (describe_chunks llm src cs [] w)) = length cs"
  by (induction cs arbitrary: w) (simp_all add: describe_chunks_Cons del: describe_chunks.simps(2))

lemma describe_chunks_nth:
  "i < length cs \<Longrightarrow>
     fst (describe_chunks llm src cs [] w) ! i =
       fst (describe_chunk llm src (cs ! i) (snd (describe_chunks llm src (take i cs) [] w)))"
proof (induction cs arbitrary: i w)
  case Nil
  then show ?case by simp
next
  case (Cons c cs)
  show ?case
  proof (cases i)
    case 0
    then show ?thesis by (simp add: describe_chunks_Cons del: describe_chunks.simps(2))
  next
    case (Suc j)
    with Cons.prems have "j < length cs" by simp
    from Cons.IH[OF this] show ?thesis
      using Suc by (simp add: describe_chunks_Cons del: describe_chunks.simps(2))
  qed
qed

lemma describe_chunk_None:
  "(fst (describe_chunk llm src c w) = None) =
     isl (llm (llm_calls w) description_prompt [ImageDocument (next_id w) (image c) (mimetype c)])"
  by (simp add: describe_chunk_def Let_def split: sum.splits)

lemma describe_chunk_Some:
  "fst (describe_chunk llm src c w) = Some d \<Longrightarrow>
     llm (llm_calls w) description_prompt [ImageDocument (next_id w) (image c) (mimetype c)] = Inr (node_text d) \<and>
     PARENT (relationships d) = Some (as_related_node_info c)"
  by (auto simp add: describe_chunk_def Let_def split: sum.splits)

text \<open>
  Claim C4. With an LLM configured, \<open>describe_image\<close> ends in a result whose
  descriptions are as many as the chunks. At each position \<open>i\<close>, in the world \<open>wi\<close> that
  the chunks before \<open>i\<close> leave: if the captioning call for chunk \<open>i\<close> raises, the
  description at \<open>i\<close> is None; if it answers, the description at \<open>i\<close> is a text node
  with that answer and with chunk \<open>i\<close> as its PARENT. No failure removes or shifts a
  later position.
\<close>

theorem C4_descriptions_aligned:
  assumes "multi_modal_llm env = Some llm"
  shows "\<exists>ds w'. describe_image env src cs w =
           (StopEvent (Some \<lparr>source = src, chunks = cs, descriptions = Some ds\<rparr>), w') \<and>
         length ds = length cs \<and>
         (\<forall>i<length cs.
            let wi = snd (describe_chunks llm src (take i cs) [] w);
                answer = llm (llm_calls wi) description_prompt
                           [ImageDocument (next_id wi) (image (cs ! i)) (mimetype (cs ! i))]
            in case answer of
                 Inl e \<Rightarrow> ds ! i = None
               | Inr txt \<Rightarrow> \<exists>d. ds ! i = Some d \<and> node_text d = txt \<and>
                              PARENT (relationships d) = Some (as_related_node_info (cs ! i)))"
proof -
  let ?ds = "fst (describe_chunks llm src cs [] w)"
  let ?w' = "snd (describe_chunks llm src cs [] w)"
  have "describe_image env src cs w =
          (StopEvent (Some \<lparr>source = src, chunks = cs, descriptions = Some ?ds\<rparr>), ?w')"
    using assms by (simp add: describe_image_def split: prod.splits)
  moreover have "length ?ds = length cs" by (rule describe_chunks_length)
  moreover have "\<forall>i<length cs.
            let wi = snd (describe_chunks llm src (take i cs) [] w);
                answer = llm (llm_calls wi) description_prompt
                           [ImageDocument (next_id wi) (image (cs ! i)) (mimetype (cs ! i))]
            in case answer of
                 Inl e \<Rightarrow> ?ds ! i = None
               | Inr txt \<Rightarrow> \<exists>d. ?ds ! i = Some d \<and> node_text d = txt \<and>
                              PARENT (relationships d) = Some (as_related_node_info (cs ! i))"
  proof (intro allI impI)
    fix i assume "i < length cs"
    then have nth: "?ds ! i = fst (describe_chunk llm src (cs ! i) (snd (describe_chunks llm src (take i cs) [] w)))"
      by (rule describe_chunks_nth)
    show "let wi = snd (describe_chunks llm src (take i cs) [] w);
                answer = llm (llm_calls wi) description_prompt
                           [ImageDocument (next_id wi) (image (cs ! i)) (mimetype (cs ! i))]
            in case answer of
                 Inl e \<Rightarrow> ?ds ! i = None
               | Inr txt \<Rightarrow> \<exists>d. ?ds ! i = Some d \<and> node_text d = txt \<and>
                              PARENT (relationships d) = Some (as_related_node_info (cs ! i))"
      unfolding nth by (simp add: describe_chunk_def Let_def split: sum.splits)
  qed
  ultimately show ?thesis by blast
qed

text \<open>C4 on two chunks, with an LLM whose first call raises.\<close>

theorem C4_witness:
  "multi_modal_llm env_llm_flaky = Some llm_flaky \<and>
   fst (describe_image env_llm_flaky root_png [chunk_a, chunk_b] world0) =
     StopEvent (Some \<lparr>source = root_png, chunks = [chunk_a, chunk_b],
       descriptions = Some [None,
         Some \<lparr>node_id = 102, node_text = ''a table'', mimetype = ''text/plain'', metadata = [],
               relationships = \<lparr>SOURCE = Some (RelatedNodeInfo 7),
                                 PARENT = Some (RelatedNodeInfo 101), CHILD = None\<rparr>\<rparr>]\<rparr>)"
proof -
  have llm: "multi_modal_llm env_llm_flaky = Some llm_flaky"
    by (simp add: env_llm_flaky_def env_ok_def)
  have ev: "fst (describe_image env_llm_flaky root_png [chunk_a, chunk_b] world0) =
     StopEvent (Some \<lparr>source = root_png, chunks = [chunk_a, chunk_b],
       descriptions = Some [None,
         Some \<lparr>node_id = 102, node_text = ''a table'', mimetype = ''text/plain'', metadata = [],
               relationships = \<lparr>SOURCE = Some (RelatedNodeInfo 7),
                                 PARENT = Some (RelatedNodeInfo 101), CHILD = None\<rparr>\<rparr>]\<rparr>)"
    by (simp add: example_defs llm_flaky_def env_llm_flaky_def stage_defs)
  from C4_descriptions_aligned[OF llm, of root_png "[chunk_a, chunk_b]" world0] llm ev
  show ?thesis by simp
qed

section \<open>From the detect stage to the segment stage\<close>

lemma crop_chunks_llm_calls:
  "llm_calls (snd (crop_chunks env rootn img zs acc w)) = llm_calls w"
proof (induction zs arbitrary: acc w)
  case Nil
  then show ?case by simp
next
  case (Cons z zs)
  obtain ann bbox where z: "z = (ann, bbox)" by (cases z)
  show ?case unfolding z
    by (simp add: Cons.IH Let_def split: sum.splits)
qed

lemma parse_stage_cases:
  "(\<exists>e. parse_image_node_with_sam2 env rootn conf w = (Inl e, rootn, w)) \<or>
   (\<exists>img zs. parse_image_node_with_sam2 env rootn conf w =
      (case crop_chunks env rootn img zs [] w of
         (Inl e, w') \<Rightarrow> (Inl e, rootn, w')
       | (Inr cs, w') \<Rightarrow> (Inr cs, register_children rootn cs, w')))"
  unfolding parse_image_node_with_sam2_def
  by (simp split: sum.splits option.splits) blast

lemma parse_stage_llm_calls:
  "llm_calls (snd (snd (parse_image_node_with_sam2 env rootn conf w))) = llm_calls w"
proof -
  from parse_stage_cases[of env rootn conf w] show ?thesis
  proof
    assume "\<exists>e. parse_image_node_with_sam2 env rootn conf w = (Inl e, rootn, w)"
    then show ?thesis by auto
  next
    assume "\<exists>img zs. parse_image_node_with_sam2 env rootn conf w =
      (case crop_chunks env rootn img zs [] w of
         (Inl e, w') \<Rightarrow> (Inl e, rootn, w')
       | (Inr cs, w') \<Rightarrow> (Inr cs, register_children rootn cs, w'))"
    then obtain img zs where p: "parse_image_node_with_sam2 env rootn conf w =
      (case crop_chunks env rootn img zs [] w of
         (Inl e, w') \<Rightarrow> (Inl e, rootn, w')
       | (Inr cs, w') \<Rightarrow> (Inr cs, register_children rootn cs, w'))" by blast
    obtain r w' where c: "crop_chunks env rootn img zs [] w = (r, w')"
      by (cases "crop_chunks env rootn img zs [] w")
    have "llm_calls w' = llm_calls w"
      using crop_chunks_llm_calls[of env rootn img zs "[]" w] c by simp
    then show ?thesis unfolding p c by (cases r) simp_all
  qed
qed

lemma parse_stage_needs_bbox_list:
  assumes "parse_image_node_with_sam2 env rootn conf w = (Inr cs, rootn', w')"
  shows "py_contains conf ''bbox_list'' = Inr True"
  using assms unfolding parse_image_node_with_sam2_def
  by (cases conf) (auto split: sum.splits option.splits prod.splits)

lemma elicit_prompt_bbox_list:
  assumes "elicit_prompt env img conf w = (r, conf', w')"
    and "py_contains conf ''bbox_list'' = Inr False"
  shows "py_contains conf' ''bbox_list'' = Inr False"
  using assms unfolding elicit_prompt_def
  by (cases conf) (auto simp: Let_def split: sum.splits option.splits bool.splits if_splits)

lemma create_bboxes_try_bbox_list:
  assumes "create_bboxes_try env img conf odc w = (r, conf', w')"
  shows "(py_contains conf ''bbox_list'' = Inr True \<and> conf' = conf \<and> w' = w) \<or>
         py_contains conf' ''bbox_list'' \<noteq> Inr True"
proof (cases "py_contains conf ''bbox_list''")
  case (Inl e)
  with assms show ?thesis by (simp add: create_bboxes_try_def)
next
  case (Inr b)
  show ?thesis
  proof (cases b)
    case True
    with Inr assms show ?thesis by (simp add: create_bboxes_try_def)
  next
    case False
    obtain r1 c1 w1 where el: "elicit_prompt env img conf w = (r1, c1, w1)"
      by (cases "elicit_prompt env img conf w") auto
    from elicit_prompt_bbox_list[OF el] Inr False
    have c1: "py_contains c1 ''bbox_list'' = Inr False" by simp
    have "conf' = c1"
      using assms Inr False el
      by (auto simp: create_bboxes_try_def split: sum.splits)
    with c1 show ?thesis by simp
  qed
qed

text \<open>
  The try block ends without an exception only on a dict, so that the BBoxCreatedEvent
  holds the configuration object as the try block leaves it.
\<close>

lemma create_bboxes_try_Inr_dict:
  assumes "create_bboxes_try env img conf odc w = (Inr b, conf', w')"
  shows "\<exists>d. conf' = PyDict d"
proof (cases conf)
  case PyNone
  with assms show ?thesis by (simp add: create_bboxes_try_def)
next
  case (PyDict d)
  with assms show ?thesis
    by (auto simp: create_bboxes_try_def elicit_prompt_def Let_def
        split: sum.splits option.splits bool.splits if_splits prod.splits)
next
  case (PyTuple t)
  with assms show ?thesis
    by (auto simp: create_bboxes_try_def elicit_prompt_def Let_def
        split: sum.splits option.splits bool.splits if_splits prod.splits)
qed

lemma create_bboxes_Inr:
  assumes "create_bboxes env img conf odc w = (Inr (BBoxCreatedEvent img2 conf2 odc2), conf2', w2)"
  shows "\<exists>r. create_bboxes_try env img conf odc w = (r, conf2', w2) \<and> conf2 = conf2'"
proof -
  obtain r c1 w1 where tr: "create_bboxes_try env img conf odc w = (r, c1, w1)"
    by (cases "create_bboxes_try env img conf odc w") auto
  show ?thesis
  proof (cases r)
    case (Inl e)
    with assms tr show ?thesis by (simp add: create_bboxes_def stop_event_with_reason_def)
  next
    case (Inr b)
    with tr create_bboxes_try_Inr_dict obtain d where d: "c1 = PyDict d" by blast
    with assms tr Inr show ?thesis
      by (auto simp: create_bboxes_def bbox_created_event_def)
  qed
qed

lemma try_ok_prompt:
  "create_bboxes_try env_ok doc_jpg (PyDict conf_prompt) (Some object_detection_configuration) world1 =
     (Inr (Some [region0]), PyDict conf_prompt, world1)"
  by (simp add: example_defs stage_defs)

text \<open>
  Claim C1 does not hold of the code. On a run from a path whose configuration has a
  model name and a prompt but no \<^verbatim>\<open>bbox_list\<close>, the detector returns the region
  \<open>region0\<close> into the local \<^verbatim>\<open>bbox_list\<close> of \<^verbatim>\<open>create_bboxes\<close>; the BBoxCreatedEvent
  carries the configuration unchanged, without the regions; and stage 3, which reads
  \<^verbatim>\<open>configuration["bbox_list"]\<close>, raises KeyError, which ends the run.
\<close>

theorem C1_detected_regions_dropped:
  "create_bboxes_try env_ok doc_jpg (PyDict conf_prompt) (Some object_detection_configuration) world1 =
     (Inr (Some [region0]), PyDict conf_prompt, world1) \<and>
   create_bboxes env_ok doc_jpg (PyDict conf_prompt) (Some object_detection_configuration) world1 =
     (Inr (BBoxCreatedEvent doc_jpg (PyDict conf_prompt) None), PyDict conf_prompt, world1) \<and>
   run env_ok (start_path (PyDict conf_prompt)) world0 =
     (Inl (KeyError ''bbox_list''), PyDict conf_prompt, world1)"
proof -
  have cb: "create_bboxes env_ok doc_jpg (PyDict conf_prompt) (Some object_detection_configuration) world1 =
     (Inr (BBoxCreatedEvent doc_jpg (PyDict conf_prompt) None), PyDict conf_prompt, world1)"
    by (simp add: create_bboxes_def try_ok_prompt bbox_created_event_def)
  have "parse_image_node_with_sam2 env_ok doc_jpg (PyDict conf_prompt) world1 =
          (Inl (KeyError ''bbox_list''), doc_jpg, world1)"
    by (simp add: example_defs stage_defs)
  then have "run env_ok (start_path (PyDict conf_prompt)) world0 =
     (Inl (KeyError ''bbox_list''), PyDict conf_prompt, world1)"
    by (simp add: run_def load_ok_prompt cb dispatch_bboxes_def dispatch_parsed_def parse_image_def)
  with try_ok_prompt cb show ?thesis by simp
qed

text \<open>
  The same for every run: when the configuration has no \<^verbatim>\<open>bbox_list\<close> and stage 2
  hands on a BBoxCreatedEvent, stage 3 raises on it.
\<close>

lemma detected_regions_never_reach_stage3:
  assumes "py_contains conf ''bbox_list'' = Inr False"
    and "create_bboxes env img conf odc w = (Inr (BBoxCreatedEvent img2 conf2 odc2), conf2', w2)"
  shows "isl (fst (parse_image_node_with_sam2 env img2 conf2 w2))"
proof (rule ccontr)
  assume "\<not> isl (fst (parse_image_node_with_sam2 env img2 conf2 w2))"
  then obtain cs rootn' w' where
    p: "parse_image_node_with_sam2 env img2 conf2 w2 = (Inr cs, rootn', w')"
    by (cases "parse_image_node_with_sam2 env img2 conf2 w2"; cases "fst (parse_image_node_with_sam2 env img2 conf2 w2)") auto
  from create_bboxes_Inr[OF assms(2)]
  obtain r where tr: "create_bboxes_try env img conf odc w = (r, conf2', w2)" and c2: "conf2 = conf2'"
    by blast
  from parse_stage_needs_bbox_list[OF p] c2
  have "py_contains conf2' ''bbox_list'' = Inr True" by simp
  with create_bboxes_try_bbox_list[OF tr] assms(1) show False by auto
qed

section \<open>The empty parse\<close>

text \<open>
  Claim C5. When stage 3 returns no chunk, the run ends there with the result that holds
  the source and an empty chunk list and no descriptions, and the LLM has been called as
  often at the end of the run as at its start: no chunk is described (and, as stage 3
  needs the \<^verbatim>\<open>bbox_list\<close> in the configuration, no prompt was elicited either).
\<close>

theorem C5_empty_parse_stops:
  assumes "load_image env start w = (Inr (ImageLoadedEvent img conf odc), conf0, w1)"
    and "create_bboxes env img conf odc w1 = (Inr (BBoxCreatedEvent img2 conf2 odc2), conf2', w2)"
    and "parse_image_node_with_sam2 env img2 conf2 w2 = (Inr [], img3, w3)"
  shows "run env start w =
           (Inr (StopEvent (Some \<lparr>source = img3, chunks = [], descriptions = None\<rparr>)), conf2', w3) \<and>
         llm_calls w3 = llm_calls w"
proof -
  have run: "run env start w =
           (Inr (StopEvent (Some \<lparr>source = img3, chunks = [], descriptions = None\<rparr>)), conf2', w3)"
    using assms by (simp add: run_def dispatch_bboxes_def dispatch_parsed_def parse_image_def)
  have "llm_calls (snd (snd (parse_image_node_with_sam2 env img2 conf2 w2))) = llm_calls w2"
    by (rule parse_stage_llm_calls)
  with assms(3) have s3: "llm_calls w3 = llm_calls w2" by simp
  from create_bboxes_Inr[OF assms(2)]
  obtain r where tr: "create_bboxes_try env img conf odc w1 = (r, conf2', w2)" and c2: "conf2 = conf2'"
    by blast
  from parse_stage_needs_bbox_list[OF assms(3)] c2
  have "py_contains conf2' ''bbox_list'' = Inr True" by simp
  with create_bboxes_try_bbox_list[OF tr] have "w2 = w1" by blast
  with s3 load_image_event_conf(2)[OF assms(1)] have "llm_calls w3 = llm_calls w" by simp
  with run show ?thesis by simp
qed

text \<open>C5 on a run from an ImageNode with two regions given, none of which can be saved.\<close>

theorem C5_witness:
  "run env_save_raises (start_node root_png (PyDict conf_boxes)) world0 =
     (Inr (StopEvent (Some \<lparr>source = register_children root_png [], chunks = [],
                             descriptions = None\<rparr>)),
      PyDict conf_boxes,
      world0\<lparr>sent := [WorkflowRuntimeError (ProviderError ''save''),
                       WorkflowRuntimeError (ProviderError ''save'')]\<rparr>)"
proof -
  have load: "load_image env_save_raises (start_node root_png (PyDict conf_boxes)) world0 =
     (Inr (ImageLoadedEvent root_png (PyDict conf_boxes) None), PyDict conf_boxes, world0)"
    by (simp add: example_defs env_save_raises_def stage_defs)
  have boxes: "create_bboxes env_save_raises root_png (PyDict conf_boxes) None world0 =
     (Inr (BBoxCreatedEvent root_png (PyDict conf_boxes) None), PyDict conf_boxes, world0)"
    by (simp add: example_defs env_save_raises_def stage_defs)
  have parse: "parse_image_node_with_sam2 env_save_raises root_png (PyDict conf_boxes) world0 =
     (Inr [], register_children root_png [],
      world0\<lparr>sent := [WorkflowRuntimeError (ProviderError ''save''),
                       WorkflowRuntimeError (ProviderError ''save'')]\<rparr>)"
    by (simp add: example_defs env_save_raises_def stage_defs)
  from C5_empty_parse_stops[OF load boxes parse] show ?thesis by simp
qed

end
